theory Spec2Isabelle
  imports Complex_Main
begin

section \<open>Data model (app/models.py)\<close>

text \<open>
  Every table of \<^verbatim>\<open>models.py\<close> is a list of rows, every row a record with the
  columns of its model class. A nullable column is an \<open>option\<close>; \<open>db.Float\<close> is a
  \<open>real\<close>; \<open>db.DateTime\<close> is an integer time stamp. Field names carry a table prefix
  where two models share a column name.

  \<^verbatim>\<open>BaseModel\<close> gives every model the columns \<^verbatim>\<open>created_at\<close> and \<^verbatim>\<open>updated_at\<close>; the
  records below extend it as the classes do.
\<close>

type_synonym datetime = int

datatype ServiceStatus = REQUESTED | ACCEPTED | REJECTED | CLOSED | PAID

record BaseModel =
  created_at :: datetime
  updated_at :: datetime

record Users = BaseModel +
  u_id :: int
  username :: string
  email :: string
  password_hash :: string
  role :: string
  address :: "string option"
  pin :: "string option"
  is_active :: bool
  api_key :: "string option"

record Customers = BaseModel +
  c_id :: int
  c_user_id :: int
  c_admin_blocked :: bool

record Services = BaseModel +
  s_id :: int
  service_type :: string
  s_description :: "string option"
  base_price :: real
  image_url :: "string option"

record ServiceProfessionals = BaseModel +
  p_id :: int
  p_user_id :: int
  p_service_id :: int
  p_description :: "string option"
  experience :: "int option"
  document :: "string option"
  is_verified :: bool
  verification_failed :: bool
  p_admin_blocked :: bool

record ServiceRequests = BaseModel +
  sr_id :: int
  sr_service_id :: int
  sr_customer_id :: int
  sr_professional_id :: "int option"
  proposed_price :: "real option"
  date_of_request :: datetime
  date_of_completion :: "datetime option"
  service_status :: ServiceStatus
  sr_remarks :: "string option"

text \<open>
  \<^verbatim>\<open>Reviews.professional_id\<close> is declared \<^verbatim>\<open>nullable=False\<close>, but the handler fills it
  from the nullable \<^verbatim>\<open>ServiceRequests.professional_id\<close>: the Python object can hold
  \<^verbatim>\<open>None\<close>, and the store refuses it on insert (see \<open>insert_review\<close>).
\<close>

record Reviews = BaseModel +
  rv_id :: int
  rv_customer_id :: int
  rv_professional_id :: "int option"
  rv_service_id :: int
  rv_service_request_id :: int
  rating :: int
  rv_remarks :: "string option"

record database =
  users :: "Users list"
  customers :: "Customers list"
  services :: "Services list"
  service_professionals :: "ServiceProfessionals list"
  service_requests :: "ServiceRequests list"
  reviews :: "Reviews list"

section \<open>The environment of one HTTP request\<close>

text \<open>
  What a handler reads besides its arguments and the database: the logged-in user's id
  kept by Flask-Login's session (\<open>None\<close> for an anonymous client); the handler's clock
  \<^verbatim>\<open>datetime.utcnow()\<close>; the clock \<^verbatim>\<open>datetime.now(timezone.utc)\<close> of \<^verbatim>\<open>BaseModel\<close>'s column
  defaults, read when the session is flushed; the standard library's
  \<^verbatim>\<open>datetime.strptime(_, '%Y-%m-%d')\<close> (\<open>None\<close> where it raises \<^verbatim>\<open>ValueError\<close>); and two
  facts about the database engine behind \<^verbatim>\<open>app.db\<close>, which the repository does not fix:
  whether it enforces the declared foreign keys, and whether this request's commit fails
  for a reason other than a declared constraint (a lost connection, say).
\<close>

record env =
  session_user_id :: "int option"
  utcnow :: datetime
  now_utc :: datetime
  strptime :: "string \<Rightarrow> datetime option"
  fk_enforced :: bool
  store_failure :: bool

text \<open>
  The Python exceptions of the model. \<^verbatim>\<open>IntegrityError\<close> and \<^verbatim>\<open>OperationalError\<close> are
  subclasses of \<^verbatim>\<open>SQLAlchemyError\<close>, which the handlers catch; \<^verbatim>\<open>AttributeError\<close> and
  \<^verbatim>\<open>OverflowError\<close> are not, and leave the handler.
\<close>

datatype py_exception = AttributeError | OverflowError | IntegrityError | OperationalError

fun SQLAlchemyError :: "py_exception \<Rightarrow> bool" where
  "SQLAlchemyError IntegrityError = True"
| "SQLAlchemyError OperationalError = True"
| "SQLAlchemyError AttributeError = False"
| "SQLAlchemyError OverflowError = False"

text \<open>
  What a handler answers: \<^verbatim>\<open>abort(code)\<close> (also from \<^verbatim>\<open>get_or_404\<close>), a redirect to
  an endpoint after one \<^verbatim>\<open>flash(message, category)\<close>, the redirect to the login page after
  \<^verbatim>\<open>logout_user()\<close>, Flask-Login's answer to a client that is not authenticated, a Python
  exception that no handler catches, or the customer dashboard's template with its
  \<^verbatim>\<open>results\<close> (each professional with the \<^verbatim>\<open>jobs_count\<close> shown beside it).
\<close>

datatype response =
    Abort nat
  | Redirect string "string \<times> string"
  | LogoutRedirect string "string \<times> string"
  | Unauthorized
  | Raise py_exception
  | Render string "(ServiceProfessionals \<times> nat) list"

text \<open>
  Modelled from the spec: the form classes of \<^verbatim>\<open>app/forms.py\<close> (\<^verbatim>\<open>BookingForm\<close>,
  \<^verbatim>\<open>UpdateRequestForm\<close>, \<^verbatim>\<open>ReviewForm\<close>) are not among the sources. A submitted form is
  the verdict of its \<^verbatim>\<open>validate_on_submit()\<close> together with the typed data of the fields
  the handlers read (the spec: "already-validated, typed inputs").
\<close>

record BookingForm =
  bf_validate_on_submit :: bool
  bf_service_id :: int
  bf_proposed_price :: "real option"

record UpdateRequestForm =
  uf_validate_on_submit :: bool
  uf_proposed_price :: "real option"

record ReviewForm =
  rf_validate_on_submit :: bool
  rf_rating :: int
  rf_remarks :: "string option"

text \<open>Python's \<^verbatim>\<open>str\<close> of an integer, for the f-strings that print a request's id.\<close>

definition digit_char :: "nat \<Rightarrow> char" where
  "digit_char d = ''0123456789'' ! d"

fun str_nat :: "nat \<Rightarrow> string" where
  "str_nat n = (if n < 10 then [digit_char n] else str_nat (n div 10) @ [digit_char (n mod 10)])"

declare str_nat.simps [simp del]

definition str_int :: "int \<Rightarrow> string" where
  "str_int i = (if i < 0 then CHR ''-'' # str_nat (nat (- i)) else str_nat (nat i))"

section \<open>The store: queries, constraints, commit\<close>

type_synonym flush = "database \<Rightarrow> py_exception + database"

text \<open>
  An \<^verbatim>\<open>Integer\<close> column holds a signed 64-bit value. A Python integer outside that range
  cannot be bound as a parameter of a statement: the driver raises \<^verbatim>\<open>OverflowError\<close>
  before the statement runs.
\<close>

definition int_fits :: "int \<Rightarrow> bool" where
  "int_fits i = (- (2 ^ 63) \<le> i \<and> i < 2 ^ 63)"

text \<open>\<^verbatim>\<open>Model.query.get(id)\<close>: the row with that primary key.\<close>

definition get_user :: "database \<Rightarrow> int \<Rightarrow> Users option" where
  "get_user db i = find (\<lambda>u. u_id u = i) (users db)"

definition get_professional :: "database \<Rightarrow> int \<Rightarrow> ServiceProfessionals option" where
  "get_professional db i = find (\<lambda>p. p_id p = i) (service_professionals db)"

definition get_request :: "database \<Rightarrow> int \<Rightarrow> ServiceRequests option" where
  "get_request db i = find (\<lambda>r. sr_id r = i) (service_requests db)"

text \<open>\<^verbatim>\<open>Model.query.get_or_404(id)\<close> with the id of the URL: the row, or the answer that
  ends the request.\<close>

definition get_or_404 :: "(database \<Rightarrow> int \<Rightarrow> 'a option) \<Rightarrow> database \<Rightarrow> int \<Rightarrow> response + 'a" where
  "get_or_404 get db i =
     (if int_fits i
      then (case get db i of None \<Rightarrow> Inl (Abort 404) | Some row \<Rightarrow> Inr row)
      else Inl (Raise OverflowError))"

text \<open>The one-to-one relationships \<^verbatim>\<open>Users.customer\<close>, \<^verbatim>\<open>Users.professional\<close> and
  \<^verbatim>\<open>ServiceProfessionals.user\<close> (\<^verbatim>\<open>uselist=False\<close>).\<close>

definition user_customer :: "database \<Rightarrow> Users \<Rightarrow> Customers option" where
  "user_customer db u = find (\<lambda>c. c_user_id c = u_id u) (customers db)"

definition user_professional :: "database \<Rightarrow> Users \<Rightarrow> ServiceProfessionals option" where
  "user_professional db u = find (\<lambda>p. p_user_id p = u_id u) (service_professionals db)"

definition professional_user :: "database \<Rightarrow> ServiceProfessionals \<Rightarrow> Users option" where
  "professional_user db p = get_user db (p_user_id p)"

text \<open>The key an autoincrement primary key gives a new row: one past the largest.\<close>

definition next_id :: "int list \<Rightarrow> int" where
  "next_id ids = fold max ids 0 + 1"

text \<open>A declared foreign key holds when the engine does not enforce it or the
  referenced key exists.\<close>

definition fk_ok :: "env \<Rightarrow> int list \<Rightarrow> int \<Rightarrow> bool" where
  "fk_ok env keys k = (if fk_enforced env then k \<in> set keys else True)"

text \<open>
  \<^verbatim>\<open>onupdate\<close> of \<^verbatim>\<open>BaseModel.updated_at\<close>. The session writes a row back only when an
  assignment has changed one of its values; the \<^verbatim>\<open>UPDATE\<close> it then emits sets
  \<^verbatim>\<open>updated_at\<close> to the current time as well. \<open>old\<close> is the row as loaded, \<open>new\<close> the row
  after the handler's assignments.
\<close>

definition onupdate :: "env \<Rightarrow> 'a BaseModel_scheme \<Rightarrow> 'a BaseModel_scheme \<Rightarrow> 'a BaseModel_scheme" where
  "onupdate env old new = (if new = old then old else new\<lparr>updated_at := now_utc env\<rparr>)"

text \<open>\<^verbatim>\<open>UPDATE ... WHERE id = i\<close>: the assignments \<open>upd\<close> to the row with that key.\<close>

definition update_professional ::
  "env \<Rightarrow> int \<Rightarrow> (ServiceProfessionals \<Rightarrow> ServiceProfessionals) \<Rightarrow> flush" where
  "update_professional env i upd db =
     Inr (db\<lparr>service_professionals :=
            map (\<lambda>p. if p_id p = i then onupdate env p (upd p) else p)
              (service_professionals db)\<rparr>)"

definition update_customer :: "env \<Rightarrow> int \<Rightarrow> (Customers \<Rightarrow> Customers) \<Rightarrow> flush" where
  "update_customer env i upd db =
     Inr (db\<lparr>customers :=
            map (\<lambda>c. if c_id c = i then onupdate env c (upd c) else c) (customers db)\<rparr>)"

definition update_request :: "env \<Rightarrow> int \<Rightarrow> (ServiceRequests \<Rightarrow> ServiceRequests) \<Rightarrow> flush" where
  "update_request env i upd db =
     Inr (db\<lparr>service_requests :=
            map (\<lambda>r. if sr_id r = i then onupdate env r (upd r) else r)
              (service_requests db)\<rparr>)"

text \<open>
  The same update when it assigns \<^verbatim>\<open>professional_id\<close>: the new value is bound as a
  parameter (and must fit the column), and it is a foreign key to
  \<^verbatim>\<open>service_professionals.id\<close>.
\<close>

definition update_request_professional :: "env \<Rightarrow> int \<Rightarrow> int \<Rightarrow> ServiceStatus \<Rightarrow> flush" where
  "update_request_professional env i new_prof st db =
     (if \<not> int_fits new_prof then Inl OverflowError
      else if fk_ok env (map p_id (service_professionals db)) new_prof
      then update_request env i
             (\<lambda>r. r\<lparr>sr_professional_id := Some new_prof, service_status := st\<rparr>) db
      else Inl IntegrityError)"

text \<open>
  \<^verbatim>\<open>INSERT INTO service_requests\<close>: the integers are bound, the three foreign keys are
  checked, the row gets its primary key and the two time stamps of \<^verbatim>\<open>BaseModel\<close>. The key
  and the time stamps of the object handed in are not yet set and are ignored.
\<close>

definition insert_service_request :: "env \<Rightarrow> ServiceRequests \<Rightarrow> flush" where
  "insert_service_request env r db =
     (if \<not> (int_fits (sr_service_id r) \<and> int_fits (sr_customer_id r)
             \<and> (case sr_professional_id r of None \<Rightarrow> True | Some p \<Rightarrow> int_fits p))
      then Inl OverflowError
      else if fk_ok env (map s_id (services db)) (sr_service_id r)
         \<and> fk_ok env (map c_id (customers db)) (sr_customer_id r)
         \<and> (case sr_professional_id r of None \<Rightarrow> True
             | Some p \<Rightarrow> fk_ok env (map p_id (service_professionals db)) p)
      then Inr (db\<lparr>service_requests :=
                  service_requests db @
                  [r\<lparr>created_at := now_utc env, updated_at := now_utc env,
                     sr_id := next_id (map sr_id (service_requests db))\<rparr>]\<rparr>)
      else Inl IntegrityError)"

text \<open>
  \<^verbatim>\<open>INSERT INTO reviews\<close>: the integers are bound; \<^verbatim>\<open>professional_id\<close> is \<^verbatim>\<open>NOT NULL\<close>;
  the check constraint \<^verbatim>\<open>rating >= 1 AND rating <= 5\<close>; \<^verbatim>\<open>service_request_id\<close> is
  \<^verbatim>\<open>unique\<close>; the four foreign keys.
\<close>

definition insert_review :: "env \<Rightarrow> Reviews \<Rightarrow> flush" where
  "insert_review env rv db =
     (if \<not> (int_fits (rv_customer_id rv) \<and> int_fits (rv_service_id rv)
             \<and> int_fits (rv_service_request_id rv) \<and> int_fits (rating rv)
             \<and> (case rv_professional_id rv of None \<Rightarrow> True | Some p \<Rightarrow> int_fits p))
      then Inl OverflowError
      else case rv_professional_id rv of
        None \<Rightarrow> Inl IntegrityError
      | Some p \<Rightarrow>
          if rating rv < 1 \<or> 5 < rating rv then Inl IntegrityError
          else if rv_service_request_id rv \<in> set (map rv_service_request_id (reviews db))
          then Inl IntegrityError
          else if fk_ok env (map c_id (customers db)) (rv_customer_id rv)
                  \<and> fk_ok env (map p_id (service_professionals db)) p
                  \<and> fk_ok env (map s_id (services db)) (rv_service_id rv)
                  \<and> fk_ok env (map sr_id (service_requests db)) (rv_service_request_id rv)
          then Inr (db\<lparr>reviews := reviews db @
                      [rv\<lparr>created_at := now_utc env, updated_at := now_utc env,
                          rv_id := next_id (map rv_id (reviews db))\<rparr>]\<rparr>)
          else Inl IntegrityError)"

text \<open>Two pending writes of one session, flushed in order; the first error stops the flush.\<close>

definition and_then :: "flush \<Rightarrow> flush \<Rightarrow> flush" where
  "and_then f g db = (case f db of Inl e \<Rightarrow> Inl e | Inr db' \<Rightarrow> g db')"

text \<open>A session with nothing pending.\<close>

definition no_change :: flush where
  "no_change db = Inr db"

text \<open>
  \<^verbatim>\<open>db.session.commit()\<close>: the pending writes are flushed in one transaction. It
  returns the new database, or the exception it raises. Nothing of a transaction that
  raised is kept: the handlers answer a \<^verbatim>\<open>SQLAlchemyError\<close> with
  \<^verbatim>\<open>db.session.rollback()\<close>, and after any other exception the request ends without a
  commit.
\<close>

definition commit :: "env \<Rightarrow> flush \<Rightarrow> database \<Rightarrow> py_exception + database" where
  "commit env pending db = (if store_failure env then Inl OperationalError else pending db)"

text \<open>
  The shape every writing handler has:
  \<^verbatim>\<open>try: ...; db.session.commit(); flash(success) except SQLAlchemyError: db.session.rollback(); flash(failure)\<close>.
  \<open>ok\<close> is what follows the commit inside \<^verbatim>\<open>try\<close>, \<open>failed\<close> the answer of the
  \<^verbatim>\<open>except\<close> branch; an exception that is no \<^verbatim>\<open>SQLAlchemyError\<close> is not caught.
\<close>

definition try_commit ::
  "env \<Rightarrow> flush \<Rightarrow> database \<Rightarrow> (database \<Rightarrow> response \<times> database) \<Rightarrow> response \<Rightarrow> response \<times> database" where
  "try_commit env pending db ok failed =
     (case commit env pending db of
        Inr db' \<Rightarrow> ok db'
      | Inl e \<Rightarrow> if SQLAlchemyError e then (failed, db) else (Raise e, db))"

section \<open>Login and role decorators\<close>

text \<open>\<^verbatim>\<open>load_user\<close> and Flask-Login's \<^verbatim>\<open>current_user\<close>.\<close>

definition load_user :: "database \<Rightarrow> int \<Rightarrow> Users option" where
  "load_user db user_id = get_user db user_id"

definition current_user :: "env \<Rightarrow> database \<Rightarrow> Users option" where
  "current_user env db =
     (case session_user_id env of None \<Rightarrow> None | Some i \<Rightarrow> load_user db i)"

text \<open>
  \<^verbatim>\<open>UserMixin.is_authenticated\<close> returns \<^verbatim>\<open>self.is_active\<close>, and \<^verbatim>\<open>Users\<close> overrides
  \<^verbatim>\<open>is_active\<close> with its column: an account whose \<^verbatim>\<open>is_active\<close> is false is not
  authenticated. \<^verbatim>\<open>login_required\<close> lets an authenticated user through and answers
  everyone else with \<^verbatim>\<open>login_manager.unauthorized()\<close>.
\<close>

definition is_authenticated :: "Users \<Rightarrow> bool" where
  "is_authenticated u = is_active u"

definition login_required ::
  "(Users \<Rightarrow> env \<Rightarrow> database \<Rightarrow> response \<times> database) \<Rightarrow> env \<Rightarrow> database \<Rightarrow> response \<times> database" where
  "login_required f env db =
     (case current_user env db of
        None \<Rightarrow> (Unauthorized, db)
      | Some u \<Rightarrow> if is_authenticated u then f u env db else (Unauthorized, db))"

text \<open>routes/admin.py, \<^verbatim>\<open>admin_required\<close> around \<^verbatim>\<open>login_required\<close>.\<close>

definition admin_required ::
  "(env \<Rightarrow> database \<Rightarrow> response \<times> database) \<Rightarrow> env \<Rightarrow> database \<Rightarrow> response \<times> database" where
  "admin_required f =
     login_required (\<lambda>u env db. if role u \<noteq> ''admin'' then (Abort 403, db) else f env db)"

text \<open>
  routes/customer.py, \<^verbatim>\<open>customer_required\<close>: a blocked customer is logged out; a
  customer account with no profile row is let through.
\<close>

definition customer_required ::
  "(Users \<Rightarrow> env \<Rightarrow> database \<Rightarrow> response \<times> database) \<Rightarrow> env \<Rightarrow> database \<Rightarrow> response \<times> database" where
  "customer_required f =
     login_required (\<lambda>u env db.
       if role u \<noteq> ''customer'' then (Abort 403, db)
       else (case user_customer db u of
               None \<Rightarrow> f u env db
             | Some c \<Rightarrow>
                 if c_admin_blocked c
                 then (LogoutRedirect ''auth.login''
                         (''Your account has been suspended by an administrator.'', ''danger''), db)
                 else f u env db))"

section \<open>Professional verification (routes/admin.py)\<close>



section \<open>Blocking and unblocking accounts (routes/admin.py)\<close>

datatype profile = CustomerProfile Customers | ProfessionalProfile ServiceProfessionals

text \<open>The assignment \<^verbatim>\<open>target_profile.admin_blocked = ...\<close>, as the session flushes it.\<close>

fun set_admin_blocked :: "env \<Rightarrow> profile \<Rightarrow> bool \<Rightarrow> flush" where
  "set_admin_blocked env (CustomerProfile c) b =
     update_customer env (c_id c) (\<lambda>c. c\<lparr>c_admin_blocked := b\<rparr>)"
| "set_admin_blocked env (ProfessionalProfile p) b =
     update_professional env (p_id p) (\<lambda>p. p\<lparr>p_admin_blocked := b\<rparr>)"

text \<open>\<^verbatim>\<open>toggle_user_block\<close>; \<open>action\<close> is \<^verbatim>\<open>request.args.get('action')\<close>.\<close>

definition toggle_user_block ::
  "int \<Rightarrow> string option \<Rightarrow> env \<Rightarrow> database \<Rightarrow> response \<times> database" where
  "toggle_user_block user_id action =
     admin_required (\<lambda>env db.
       case get_or_404 get_user db user_id of
         Inl resp \<Rightarrow> (resp, db)
       | Inr user \<Rightarrow>
           (let target_profile =
                  (if role user = ''customer''
                   then map_option CustomerProfile (user_customer db user)
                   else if role user = ''professional''
                   then map_option ProfessionalProfile (user_professional db user)
                   else None)
            in case target_profile of
                 Some prof \<Rightarrow>
                   (let is_blocking = (action = Some ''block'') in
                    try_commit env (set_admin_blocked env prof is_blocking) db
                      (\<lambda>db'. (Redirect ''admin.admin_dashboard''
                                (''User '' @ username user @ '' has been ''
                                   @ (if is_blocking then ''blocked'' else ''unblocked'') @ ''.'',
                                 if \<not> is_blocking then ''success'' else ''warning''), db'))
                      (Redirect ''admin.admin_dashboard''
                         (''Database error during status change.'', ''danger'')))
               | None \<Rightarrow>
                   (Redirect ''admin.admin_dashboard''
                      (''User profile not found.'', ''danger''), db)))"

text \<open>
  The helper \<^verbatim>\<open>_toggle_block_status\<close> behind the routes \<^verbatim>\<open>block_user\<close> and
  \<^verbatim>\<open>unblock_user\<close>. It assigns through \<^verbatim>\<open>user.customer\<close> or \<^verbatim>\<open>user.professional\<close>
  without looking whether the profile exists, and commits and reports in every case
  that raises nothing.
\<close>

definition toggle_block_status :: "int \<Rightarrow> bool \<Rightarrow> env \<Rightarrow> database \<Rightarrow> response \<times> database" where
  "toggle_block_status user_id block env db =
     (case get_or_404 get_user db user_id of
        Inl resp \<Rightarrow> (resp, db)
      | Inr user \<Rightarrow>
          (let finish = (\<lambda>pending.
                 try_commit env pending db
                   (\<lambda>db'. (Redirect ''admin.admin_dashboard''
                             (''User '' @ username user @ '' has been ''
                                @ (if block then ''blocked'' else ''unblocked'') @ ''.'',
                              if block then ''warning'' else ''info''), db'))
                   (Redirect ''admin.admin_dashboard'' (''An error occurred.'', ''danger'')))
           in if role user = ''customer''
              then (case user_customer db user of
                      None \<Rightarrow> (Raise AttributeError, db)
                    | Some c \<Rightarrow> finish (set_admin_blocked env (CustomerProfile c) block))
              else if role user = ''professional''
              then (case user_professional db user of
                      None \<Rightarrow> (Raise AttributeError, db)
                    | Some p \<Rightarrow> finish (set_admin_blocked env (ProfessionalProfile p) block))
              else finish no_change))"

definition block_user :: "int \<Rightarrow> env \<Rightarrow> database \<Rightarrow> response \<times> database" where
  "block_user user_id = admin_required (toggle_block_status user_id True)"

definition unblock_user :: "int \<Rightarrow> env \<Rightarrow> database \<Rightarrow> response \<times> database" where
  "unblock_user user_id = admin_required (toggle_block_status user_id False)"

section \<open>Reassigning a rejected request (routes/admin.py)\<close>

text \<open>\<open>new_prof_id\<close> is \<^verbatim>\<open>request.form.get('professional_id', type=int)\<close>; Python's
  \<^verbatim>\<open>not new_prof_id\<close> holds for \<^verbatim>\<open>None\<close> and for \<^verbatim>\<open>0\<close>.\<close>

definition reassign_professional ::
  "int \<Rightarrow> int option \<Rightarrow> env \<Rightarrow> database \<Rightarrow> response \<times> database" where
  "reassign_professional request_id new_prof_id =
     admin_required (\<lambda>env db.
       case get_or_404 get_request db request_id of
         Inl resp \<Rightarrow> (resp, db)
       | Inr service_request \<Rightarrow>
           if new_prof_id = None \<or> new_prof_id = Some 0
           then (Redirect ''admin.admin_dashboard''
                   (''You must select a professional.'', ''danger''), db)
           else if service_status service_request \<noteq> REJECTED
           then (Redirect ''admin.admin_dashboard''
                   (''Only rejected requests can be reassigned.'', ''warning''), db)
           else try_commit env
                  (update_request_professional env (sr_id service_request)
                     (the new_prof_id) REQUESTED) db
                  (\<lambda>db'. (Redirect ''admin.admin_dashboard''
                            (''Request #'' @ str_int (sr_id service_request)
                               @ '' has been reassigned successfully.'', ''success''), db'))
                  (Redirect ''admin.admin_dashboard''
                     (''Database error during reassignment.'', ''danger'')))"

section \<open>The customer's side of the request lifecycle (routes/customer.py)\<close>

text \<open>The duplicate check of \<^verbatim>\<open>book_service\<close>:
  \<^verbatim>\<open>ServiceRequests.query.filter(...).first()\<close>.\<close>

definition existing_request :: "database \<Rightarrow> int \<Rightarrow> int \<Rightarrow> ServiceRequests option" where
  "existing_request db customer_id professional_id =
     find (\<lambda>r. sr_customer_id r = customer_id
              \<and> sr_professional_id r = Some professional_id
              \<and> service_status r \<in> set [REQUESTED, ACCEPTED])
       (service_requests db)"

text \<open>\<open>date_str\<close> is \<^verbatim>\<open>request.form.get('date_of_request')\<close>; \<^verbatim>\<open>strptime\<close> raises
  \<^verbatim>\<open>TypeError\<close> on \<^verbatim>\<open>None\<close> and \<^verbatim>\<open>ValueError\<close> on a string that is no date.\<close>

definition parse_date :: "env \<Rightarrow> string option \<Rightarrow> datetime option" where
  "parse_date env date_str = (case date_str of None \<Rightarrow> None | Some s \<Rightarrow> strptime env s)"

definition book_service ::
  "int \<Rightarrow> BookingForm \<Rightarrow> string option \<Rightarrow> env \<Rightarrow> database \<Rightarrow> response \<times> database" where
  "book_service professional_id form date_str =
     customer_required (\<lambda>user env db.
       case get_or_404 get_professional db professional_id of
         Inl resp \<Rightarrow> (resp, db)
       | Inr professional \<Rightarrow>
           if bf_validate_on_submit form then
             (case parse_date env date_str of
                None \<Rightarrow>
                  (Redirect ''customer.customer_dashboard''
                     (''Invalid date format. Please try again.'', ''danger''), db)
              | Some date_obj \<Rightarrow>
                  (case user_customer db user of
                     None \<Rightarrow> (Raise AttributeError, db)
                   | Some customer \<Rightarrow>
                       (case existing_request db (c_id customer) (p_id professional) of
                          Some r \<Rightarrow>
                            (Redirect ''customer.customer_dashboard''
                               (''You already have an active request with this professional.'',
                                ''warning''), db)
                        | None \<Rightarrow>
                            try_commit env
                              (insert_service_request env
                                 \<lparr>created_at = 0, updated_at = 0,
                                  sr_id = 0,
                                  sr_service_id = bf_service_id form,
                                  sr_customer_id = c_id customer,
                                  sr_professional_id = Some (p_id professional),
                                  proposed_price = bf_proposed_price form,
                                  date_of_request = date_obj,
                                  date_of_completion = None,
                                  service_status = REQUESTED,
                                  sr_remarks = None\<rparr>) db
                              (\<lambda>db'. (Redirect ''customer.service_history''
                                        (''Your service request has been sent!'', ''success''),
                                      db'))
                              (Redirect ''customer.customer_dashboard''
                                 (''An error occurred while booking. Please try again.'',
                                  ''danger'')))))
           else (Redirect ''customer.customer_dashboard''
                   (''Form validation failed. Please check your inputs.'', ''danger''), db))"

definition update_service_request ::
  "int \<Rightarrow> UpdateRequestForm \<Rightarrow> env \<Rightarrow> database \<Rightarrow> response \<times> database" where
  "update_service_request request_id form =
     customer_required (\<lambda>user env db.
       case get_or_404 get_request db request_id of
         Inl resp \<Rightarrow> (resp, db)
       | Inr service_request \<Rightarrow>
           (case user_customer db user of
              None \<Rightarrow> (Raise AttributeError, db)
            | Some customer \<Rightarrow>
                if sr_customer_id service_request \<noteq> c_id customer then (Abort 403, db)
                else if service_status service_request \<noteq> REQUESTED
                then (Redirect ''customer.service_history''
                        (''You can only edit requests that are still pending.'', ''warning''), db)
                else if uf_validate_on_submit form then
                  try_commit env
                    (update_request env (sr_id service_request)
                       (\<lambda>r. r\<lparr>proposed_price := uf_proposed_price form\<rparr>)) db
                    (\<lambda>db'. (Redirect ''customer.service_history''
                              (''Your service request has been updated successfully.'',
                               ''success''), db'))
                    (Redirect ''customer.service_history''
                       (''Database error occurred.'', ''danger''))
                else (Redirect ''customer.service_history''
                        (''Invalid price submitted.'', ''danger''), db)))"

text \<open>
  \<^verbatim>\<open>review_service\<close>: the session holds the new \<^verbatim>\<open>Reviews\<close> object and the two
  assignments to the request; one commit flushes the update of the request and the
  insert of the review.
\<close>

definition review_service ::
  "int \<Rightarrow> ReviewForm \<Rightarrow> env \<Rightarrow> database \<Rightarrow> response \<times> database" where
  "review_service request_id form =
     customer_required (\<lambda>user env db.
       case get_or_404 get_request db request_id of
         Inl resp \<Rightarrow> (resp, db)
       | Inr service_request \<Rightarrow>
           (case user_customer db user of
              None \<Rightarrow> (Raise AttributeError, db)
            | Some customer \<Rightarrow>
                if sr_customer_id service_request \<noteq> c_id customer then (Abort 403, db)
                else if rf_validate_on_submit form then
                  try_commit env
                    (and_then
                       (update_request env (sr_id service_request)
                          (\<lambda>r. r\<lparr>service_status := CLOSED,
                                 date_of_completion := Some (utcnow env)\<rparr>))
                       (insert_review env
                          \<lparr>created_at = 0, updated_at = 0,
                           rv_id = 0,
                           rv_customer_id = c_id customer,
                           rv_professional_id = sr_professional_id service_request,
                           rv_service_id = sr_service_id service_request,
                           rv_service_request_id = sr_id service_request,
                           rating = rf_rating form,
                           rv_remarks = rf_remarks form\<rparr>)) db
                    (\<lambda>db'. (Redirect ''customer.service_history''
                              (''Thank you for your review! You can now proceed to payment.'',
                               ''success''), db'))
                    (Redirect ''customer.service_history''
                       (''An error occurred while saving your review.'', ''danger''))
                else (Redirect ''customer.service_history''
                        (''There was an error with your review submission.'', ''danger''), db)))"

definition process_payment :: "int \<Rightarrow> env \<Rightarrow> database \<Rightarrow> response \<times> database" where
  "process_payment request_id =
     customer_required (\<lambda>user env db.
       case get_or_404 get_request db request_id of
         Inl resp \<Rightarrow> (resp, db)
       | Inr service_request \<Rightarrow>
           (case user_customer db user of
              None \<Rightarrow> (Raise AttributeError, db)
            | Some customer \<Rightarrow>
                if sr_customer_id service_request \<noteq> c_id customer then (Abort 403, db)
                else if service_status service_request \<noteq> CLOSED
                then (Redirect ''customer.service_history''
                        (''This service cannot be paid for at this time.'', ''warning''), db)
                else try_commit env
                       (update_request env (sr_id service_request)
                          (\<lambda>r. r\<lparr>service_status := PAID,
                                 date_of_completion := Some (utcnow env)\<rparr>)) db
                       (\<lambda>db'. (Redirect ''customer.service_history''
                                 (''Payment for request #'' @ str_int (sr_id service_request)
                                    @ '' was successful! Thank you.'', ''success''), db'))
                       (Redirect ''customer.service_history''
                          (''Transaction failed. Please try again.'', ''danger''))))"

section \<open>The customer dashboard's listing (routes/customer.py)\<close>

text \<open>"Calculate Jobs Completed":
  \<^verbatim>\<open>ServiceRequests.query.filter_by(professional_id=prof.id, service_status=CLOSED).count()\<close>.\<close>

definition jobs_count :: "database \<Rightarrow> int \<Rightarrow> nat" where
  "jobs_count db prof_id =
     length (filter (\<lambda>r. sr_professional_id r = Some prof_id \<and> service_status r = CLOSED)
               (service_requests db))"

text \<open>
  The listing query: professionals joined with their user and service,
  \<^verbatim>\<open>is_verified == True\<close>, \<^verbatim>\<open>admin_blocked == False\<close>, the service of the dropdown when
  one is chosen, and the text search when \<open>q\<close> (already stripped) is not empty. SQL's
  \<^verbatim>\<open>ILIKE\<close> is the parameter \<open>ilike\<close>; on a \<^verbatim>\<open>NULL\<close> column it is not true.
\<close>

definition ilike_opt :: "(string \<Rightarrow> string \<Rightarrow> bool) \<Rightarrow> string option \<Rightarrow> string \<Rightarrow> bool" where
  "ilike_opt ilike col pat = (case col of None \<Rightarrow> False | Some v \<Rightarrow> ilike v pat)"

definition dashboard_query ::
  "(string \<Rightarrow> string \<Rightarrow> bool) \<Rightarrow> int option \<Rightarrow> string \<Rightarrow> database \<Rightarrow> ServiceProfessionals list" where
  "dashboard_query ilike service_id q db =
     filter (\<lambda>p.
        case (professional_user db p, find (\<lambda>s. s_id s = p_service_id p) (services db)) of
          (Some u, Some s) \<Rightarrow>
            is_verified p \<and> \<not> p_admin_blocked p
            \<and> (if service_id = None \<or> service_id = Some 0 then True
                else Some (p_service_id p) = service_id)
            \<and> (if q = [] then True
                else (let search_term = ''%'' @ q @ ''%'' in
                      ilike (username u) search_term
                      \<or> ilike_opt ilike (address u) search_term
                      \<or> ilike_opt ilike (pin u) search_term
                      \<or> ilike (service_type s) search_term
                      \<or> ilike_opt ilike (p_description p) search_term))
        | _ \<Rightarrow> False)
       (service_professionals db)"

text \<open>
  \<^verbatim>\<open>customer_dashboard\<close>, up to the ordering of \<^verbatim>\<open>results\<close>: each listed professional
  with its \<^verbatim>\<open>jobs_count\<close>. The \<^verbatim>\<open>rating\<close> entry (a rounded floating-point average) and
  the sort by the chosen key are left out. The \<^verbatim>\<open>service_id\<close> of the query string is
  bound as a parameter when it is given.
\<close>

definition customer_dashboard ::
  "(string \<Rightarrow> string \<Rightarrow> bool) \<Rightarrow> int option \<Rightarrow> string \<Rightarrow> env \<Rightarrow> database \<Rightarrow> response \<times> database" where
  "customer_dashboard ilike service_id q =
     customer_required (\<lambda>user env db.
       if (case service_id of None \<Rightarrow> True | Some i \<Rightarrow> int_fits i)
       then (Render ''customer/customer_dashboard.html''
               (map (\<lambda>prof. (prof, jobs_count db (p_id prof)))
                  (dashboard_query ilike service_id q db)), db)
       else (Raise OverflowError, db))"

section \<open>Notions of the specification\<close>

text \<open>An operation has succeeded when the handler flashes in the category
  \<^verbatim>\<open>'success'\<close>; every refusal and every rollback flashes in another one, aborts or
  raises.\<close>

definition succeeded :: "response \<Rightarrow> bool" where
  "succeeded resp = (case resp of Redirect ep (msg, cat) \<Rightarrow> cat = ''success'' | _ \<Rightarrow> False)"

text \<open>An active request is one in status REQUESTED or ACCEPTED. The uniqueness
  invariant of the specification: no two active requests share their customer and
  professional.\<close>

definition active :: "ServiceRequests \<Rightarrow> bool" where
  "active r = (service_status r \<in> set [REQUESTED, ACCEPTED])"

definition one_active_per_pair :: "database \<Rightarrow> bool" where
  "one_active_per_pair db =
     distinct (map (\<lambda>r. (sr_customer_id r, sr_professional_id r))
                 (filter active (service_requests db)))"

text \<open>Every request names a professional: what \<^verbatim>\<open>book_service\<close> and
  \<^verbatim>\<open>reassign_professional\<close> write, although the column is nullable.\<close>

definition all_have_professional :: "database \<Rightarrow> bool" where
  "all_have_professional db =
     list_all (\<lambda>r. sr_professional_id r \<noteq> None) (service_requests db)"

text \<open>The request rows of \<open>db'\<close> are those of \<open>db\<close>, or those of \<open>db\<close> after the
  request with the key \<open>rid\<close> has been rewritten by \<open>g\<close>.\<close>

definition rows_updated ::
  "int \<Rightarrow> (ServiceRequests \<Rightarrow> ServiceRequests) \<Rightarrow> database \<Rightarrow> database \<Rightarrow> bool" where
  "rows_updated rid g db db' =
     (db' = db \<or> service_requests db' =
        map (\<lambda>x. if sr_id x = rid then g x else x) (service_requests db))"

section \<open>A small marketplace, for concrete evaluation\<close>

text \<open>
  One administrator, two customers (alice, dave), two professionals (bob, verified;
  carol, not verified and blocked), one service, and three requests of alice's:
  a pending one with bob, a rejected one with carol, and a closed, reviewed one with bob.
  Every account is active.
\<close>

definition example_users :: "Users list" where
  "example_users =
     [\<lparr>created_at = 1690000000, updated_at = 1690000000,
       u_id = 1, username = ''root'', email = ''root@example.org'', password_hash = ''x'',
       role = ''admin'', address = None, pin = None, is_active = True, api_key = None\<rparr>,
      \<lparr>created_at = 1690000000, updated_at = 1690000000,
       u_id = 2, username = ''alice'', email = ''alice@example.org'', password_hash = ''x'',
       role = ''customer'', address = None, pin = Some ''600001'', is_active = True,
       api_key = None\<rparr>,
      \<lparr>created_at = 1690000000, updated_at = 1690000000,
       u_id = 3, username = ''bob'', email = ''bob@example.org'', password_hash = ''x'',
       role = ''professional'', address = None, pin = None, is_active = True, api_key = None\<rparr>,
      \<lparr>created_at = 1690000000, updated_at = 1690000000,
       u_id = 4, username = ''carol'', email = ''carol@example.org'', password_hash = ''x'',
       role = ''professional'', address = None, pin = None, is_active = True, api_key = None\<rparr>,
      \<lparr>created_at = 1690000000, updated_at = 1690000000,
       u_id = 5, username = ''dave'', email = ''dave@example.org'', password_hash = ''x'',
       role = ''customer'', address = None, pin = None, is_active = True, api_key = None\<rparr>]"

definition example_professionals :: "ServiceProfessionals list" where
  "example_professionals =
     [\<lparr>created_at = 1690000000, updated_at = 1690000000,
       p_id = 1, p_user_id = 3, p_service_id = 1, p_description = None, experience = Some 4,
       document = None, is_verified = True, verification_failed = False,
       p_admin_blocked = False\<rparr>,
      \<lparr>created_at = 1690000000, updated_at = 1690000000,
       p_id = 2, p_user_id = 4, p_service_id = 1, p_description = None, experience = Some 0,
       document = None, is_verified = False, verification_failed = False,
       p_admin_blocked = True\<rparr>]"

definition example_requests :: "ServiceRequests list" where
  "example_requests =
     [\<lparr>created_at = 1704000000, updated_at = 1704000000,
       sr_id = 1, sr_service_id = 1, sr_customer_id = 1, sr_professional_id = Some 1,
       proposed_price = Some 100, date_of_request = 1704067200, date_of_completion = None,
       service_status = REQUESTED, sr_remarks = None\<rparr>,
      \<lparr>created_at = 1703900000, updated_at = 1703950000,
       sr_id = 2, sr_service_id = 1, sr_customer_id = 1, sr_professional_id = Some 2,
       proposed_price = Some 80, date_of_request = 1703980800, date_of_completion = None,
       service_status = REJECTED, sr_remarks = None\<rparr>,
      \<lparr>created_at = 1701300000, updated_at = 1701475200,
       sr_id = 3, sr_service_id = 1, sr_customer_id = 1, sr_professional_id = Some 1,
       proposed_price = Some 120, date_of_request = 1701388800,
       date_of_completion = Some 1701475200, service_status = CLOSED, sr_remarks = None\<rparr>]"

definition example_db :: database where
  "example_db =
     \<lparr>users = example_users,
      customers = [\<lparr>created_at = 1690000000, updated_at = 1690000000,
                    c_id = 1, c_user_id = 2, c_admin_blocked = False\<rparr>,
                   \<lparr>created_at = 1690000000, updated_at = 1690000000,
                    c_id = 2, c_user_id = 5, c_admin_blocked = False\<rparr>],
      services = [\<lparr>created_at = 1690000000, updated_at = 1690000000,
                   s_id = 1, service_type = ''Plumbing'', s_description = None,
                   base_price = 500, image_url = None\<rparr>],
      service_professionals = example_professionals,
      service_requests = example_requests,
      reviews = [\<lparr>created_at = 1701475200, updated_at = 1701475200,
                  rv_id = 1, rv_customer_id = 1, rv_professional_id = Some 1, rv_service_id = 1,
                  rv_service_request_id = 3, rating = 4, rv_remarks = Some ''fine''\<rparr>]\<rparr>"

text \<open>The request of the user with id \<open>uid\<close>, at a fixed time, on an engine that
  enforces foreign keys and does not fail.\<close>

definition example_env :: "int \<Rightarrow> env" where
  "example_env uid =
     \<lparr>session_user_id = Some uid, utcnow = 1704153600, now_utc = 1704153601,
      strptime = (\<lambda>s. if s = ''2024-01-05'' then Some 1704412800 else None),
      fk_enforced = True, store_failure = False\<rparr>"

lemmas example_defs =
  example_db_def example_users_def example_professionals_def example_requests_def
  example_env_def

lemmas store_defs =
  get_user_def get_professional_def get_request_def get_or_404_def user_customer_def
  user_professional_def professional_user_def load_user_def current_user_def commit_def
  try_commit_def fk_ok_def next_id_def int_fits_def onupdate_def

lemmas access_defs =
  login_required_def is_authenticated_def admin_required_def customer_required_def

section \<open>Basic facts about the store\<close>

lemma find_map_keep:
  "(\<And>x. P (g x) = P x) \<Longrightarrow> find P (map g xs) = map_option g (find P xs)"
  by (induction xs) auto

lemma get_professional_key: "get_professional db i = Some p \<Longrightarrow> p_id p = i"
  by (auto simp: get_professional_def find_Some_iff)

lemma get_request_key: "get_request db i = Some r \<Longrightarrow> sr_id r = i"
  by (auto simp: get_request_def find_Some_iff)

lemma get_or_404_found: "int_fits i \<Longrightarrow> get db i = Some row \<Longrightarrow> get_or_404 get db i = Inr row"
  by (simp add: get_or_404_def)


lemma sr_id_onupdate: "sr_id (onupdate env r q) = (if q = r then sr_id r else sr_id q)"
  by (simp add: onupdate_def)


lemma get_request_updated:
  assumes "\<And>r. sr_id (g r) = sr_id r"
  shows "get_request
           (db\<lparr>service_requests :=
                 map (\<lambda>r. if sr_id r = i then g r else r) (service_requests db)\<rparr>) j
         = map_option (\<lambda>r. if sr_id r = i then g r else r) (get_request db j)"
  unfolding get_request_def using assms
  by (simp add: find_map_keep)

lemma current_user_eq:
  "session_user_id env' = session_user_id env \<Longrightarrow> users db' = users db \<Longrightarrow>
   current_user env' db' = current_user env db"
  by (simp add: current_user_def load_user_def get_user_def split: option.splits)

lemma user_customer_eq:
  "customers db' = customers db \<Longrightarrow> user_customer db' u = user_customer db u"
  by (simp add: user_customer_def)

lemma admin_required_pass:
  assumes "current_user env db = Some u" "is_active u" "role u = ''admin''"
  shows "admin_required f env db = f env db"
  using assms by (simp add: access_defs)

lemma customer_required_pass:
  assumes "current_user env db = Some u" "is_active u" "role u = ''customer''"
    "user_customer db u = Some c" "\<not> c_admin_blocked c"
  shows "customer_required f env db = f u env db"
  using assms by (simp add: access_defs)

section \<open>Professional verification\<close>











lemma example_root:
  "current_user (example_env 1) example_db = Some (example_users ! 0)"
  "is_active (example_users ! 0)"
  "role (example_users ! 0) = ''admin''"
  by (simp_all add: store_defs example_defs)


section \<open>The customer's operations\<close>

lemma process_payment_cases:
  assumes "current_user env db = Some u" "is_active u" "role u = ''customer''"
    "user_customer db u = Some c" "\<not> c_admin_blocked c"
    "int_fits rid" "get_request db rid = Some r"
  shows "process_payment rid env db =
    (if sr_customer_id r \<noteq> c_id c then (Abort 403, db)
     else if service_status r \<noteq> CLOSED
     then (Redirect ''customer.service_history''
             (''This service cannot be paid for at this time.'', ''warning''), db)
     else if store_failure env
     then (Redirect ''customer.service_history''
             (''Transaction failed. Please try again.'', ''danger''), db)
     else (Redirect ''customer.service_history''
             (''Payment for request #'' @ str_int rid @ '' was successful! Thank you.'',
              ''success''),
           db\<lparr>service_requests :=
                map (\<lambda>x. if sr_id x = rid
                          then onupdate env x
                                 (x\<lparr>service_status := PAID,
                                    date_of_completion := Some (utcnow env)\<rparr>)
                          else x) (service_requests db)\<rparr>))"
  using assms(4,6,7) get_request_key[OF assms(7)]
  by (simp add: process_payment_def customer_required_pass[OF assms(1-5)] get_or_404_def
      try_commit_def commit_def update_request_def)

lemma paid_row:
  "service_status r = CLOSED \<Longrightarrow>
   onupdate env r (r\<lparr>service_status := PAID, date_of_completion := d\<rparr>)
     = r\<lparr>service_status := PAID, date_of_completion := d, updated_at := now_utc env\<rparr>"
proof -
  assume a: "service_status r = CLOSED"
  have "r\<lparr>service_status := PAID, date_of_completion := d\<rparr> \<noteq> r"
  proof
    assume "r\<lparr>service_status := PAID, date_of_completion := d\<rparr> = r"
    then have "service_status (r\<lparr>service_status := PAID, date_of_completion := d\<rparr>)
                 = service_status r" by simp
    with a show False by simp
  qed
  then show ?thesis by (simp add: onupdate_def)
qed

text \<open>
  Claim C3. For an authenticated, unblocked customer and an existing request: a
  requester who does not own the request gets 403 and the database is unchanged; the
  owner of a request that is not CLOSED (REQUESTED, ACCEPTED, REJECTED or PAID) gets the
  warning and the database is unchanged; the owner of a CLOSED request, when the commit
  goes through, gets the success message, the request is then PAID with its completion
  date set to the current time (and \<open>updated_at\<close> rewritten by the update), and a second
  payment by the same user is refused and changes nothing. With a commit that goes
  through, payment succeeds exactly for the owner of a CLOSED request.
\<close>

theorem process_payment_only_closed:
  assumes "current_user env db = Some u" "is_active u" "role u = ''customer''"
    "user_customer db u = Some c" "\<not> c_admin_blocked c"
    "int_fits rid" "get_request db rid = Some r"
  shows "(sr_customer_id r \<noteq> c_id c \<longrightarrow> process_payment rid env db = (Abort 403, db))
    \<and> (sr_customer_id r = c_id c \<and> service_status r \<noteq> CLOSED \<longrightarrow>
         process_payment rid env db =
           (Redirect ''customer.service_history''
              (''This service cannot be paid for at this time.'', ''warning''), db))
    \<and> (sr_customer_id r = c_id c \<and> service_status r = CLOSED \<and> \<not> store_failure env \<longrightarrow>
         (\<exists>db'. process_payment rid env db =
                 (Redirect ''customer.service_history''
                    (''Payment for request #'' @ str_int rid @ '' was successful! Thank you.'',
                     ''success''), db')
            \<and> get_request db' rid =
                Some (r\<lparr>service_status := PAID, date_of_completion := Some (utcnow env),
                        updated_at := now_utc env\<rparr>)
            \<and> (\<forall>env'. session_user_id env' = session_user_id env \<longrightarrow>
                 process_payment rid env' db' =
                   (Redirect ''customer.service_history''
                      (''This service cannot be paid for at this time.'', ''warning''), db'))))
    \<and> (\<not> store_failure env \<longrightarrow>
         succeeded (fst (process_payment rid env db))
           = (sr_customer_id r = c_id c \<and> service_status r = CLOSED))"
proof (intro conjI impI)
  assume "sr_customer_id r \<noteq> c_id c"
  then show "process_payment rid env db = (Abort 403, db)"
    by (simp add: process_payment_cases[OF assms])
next
  assume "sr_customer_id r = c_id c \<and> service_status r \<noteq> CLOSED"
  then show "process_payment rid env db =
           (Redirect ''customer.service_history''
              (''This service cannot be paid for at this time.'', ''warning''), db)"
    by (simp add: process_payment_cases[OF assms])
next
  assume a: "sr_customer_id r = c_id c \<and> service_status r = CLOSED \<and> \<not> store_failure env"
  let ?g = "\<lambda>x. onupdate env x
                   (x\<lparr>service_status := PAID, date_of_completion := Some (utcnow env)\<rparr>)"
  let ?r' = "r\<lparr>service_status := PAID, date_of_completion := Some (utcnow env),
               updated_at := now_utc env\<rparr>"
  let ?db' = "db\<lparr>service_requests :=
                map (\<lambda>x. if sr_id x = rid then ?g x else x) (service_requests db)\<rparr>"
  have gid: "\<And>x. sr_id (?g x) = sr_id x" by (simp add: sr_id_onupdate)
  have 1: "process_payment rid env db =
                 (Redirect ''customer.service_history''
                    (''Payment for request #'' @ str_int rid @ '' was successful! Thank you.'',
                     ''success''), ?db')"
    using a by (simp add: process_payment_cases[OF assms])
  have 2: "get_request ?db' rid = Some ?r'"
    using assms(7) get_request_key[OF assms(7)] a
    by (simp add: get_request_updated[of ?g, OF gid] paid_row)
  have 3: "process_payment rid env' ?db' =
                   (Redirect ''customer.service_history''
                      (''This service cannot be paid for at this time.'', ''warning''), ?db')"
    if "session_user_id env' = session_user_id env" for env'
  proof -
    have cu: "current_user env' ?db' = Some u"
      using assms(1) that current_user_eq[of env' env ?db' db] by simp
    have uc: "user_customer ?db' u = Some c"
      using assms(4) user_customer_eq[of ?db' db u] by simp
    show ?thesis
      using a by (simp add: process_payment_cases[OF cu assms(2,3) uc assms(5,6) 2])
  qed
  from 1 2 3 show "\<exists>db'. process_payment rid env db =
                 (Redirect ''customer.service_history''
                    (''Payment for request #'' @ str_int rid @ '' was successful! Thank you.'',
                     ''success''), db')
            \<and> get_request db' rid = Some ?r'
            \<and> (\<forall>env'. session_user_id env' = session_user_id env \<longrightarrow>
                 process_payment rid env' db' =
                   (Redirect ''customer.service_history''
                      (''This service cannot be paid for at this time.'', ''warning''), db'))"
    by blast
next
  assume "\<not> store_failure env"
  then show "succeeded (fst (process_payment rid env db))
           = (sr_customer_id r = c_id c \<and> service_status r = CLOSED)"
    by (simp add: process_payment_cases[OF assms] succeeded_def)
qed

lemma str_int_3: "str_int 3 = ''3''"
  by (simp add: str_int_def str_nat.simps digit_char_def)

lemma example_alice:
  "current_user (example_env 2) example_db = Some (example_users ! 1)"
  "is_active (example_users ! 1)"
  "role (example_users ! 1) = ''customer''"
  "user_customer example_db (example_users ! 1) = Some (customers example_db ! 0)"
  "\<not> c_admin_blocked (customers example_db ! 0)"
  by (simp_all add: store_defs example_defs)

lemma example_dave:
  "current_user (example_env 5) example_db = Some (example_users ! 4)"
  "is_active (example_users ! 4)"
  "role (example_users ! 4) = ''customer''"
  "user_customer example_db (example_users ! 4) = Some (customers example_db ! 1)"
  "\<not> c_admin_blocked (customers example_db ! 1)"
  by (simp_all add: store_defs example_defs)

lemma example_request_1: "int_fits 1" "get_request example_db 1 = Some (example_requests ! 0)"
  by (simp_all add: store_defs example_defs)

lemma example_request_2: "int_fits 2" "get_request example_db 2 = Some (example_requests ! 1)"
  by (simp_all add: store_defs example_defs)

lemma example_request_3: "int_fits 3" "get_request example_db 3 = Some (example_requests ! 2)"
  by (simp_all add: store_defs example_defs)

theorem process_payment_only_closed_witness:
  "process_payment 3 (example_env 2) example_db =
     (Redirect ''customer.service_history''
        (''Payment for request #3 was successful! Thank you.'', ''success''),
      example_db\<lparr>service_requests :=
        [example_requests ! 0, example_requests ! 1,
         (example_requests ! 2)\<lparr>service_status := PAID, date_of_completion := Some 1704153600,
                                  updated_at := 1704153601\<rparr>]\<rparr>)
   \<and> process_payment 3 (example_env 2) (snd (process_payment 3 (example_env 2) example_db)) =
       (Redirect ''customer.service_history''
          (''This service cannot be paid for at this time.'', ''warning''),
        snd (process_payment 3 (example_env 2) example_db))
   \<and> process_payment 1 (example_env 2) example_db =
       (Redirect ''customer.service_history''
          (''This service cannot be paid for at this time.'', ''warning''), example_db)
   \<and> process_payment 3 (example_env 5) example_db = (Abort 403, example_db)"
proof -
  have own3: "sr_customer_id (example_requests ! 2) = c_id (customers example_db ! 0)"
    "service_status (example_requests ! 2) = CLOSED"
    "\<not> store_failure (example_env 2)"
    and own1: "sr_customer_id (example_requests ! 0) = c_id (customers example_db ! 0)"
    "service_status (example_requests ! 0) \<noteq> CLOSED"
    and other: "sr_customer_id (example_requests ! 2) \<noteq> c_id (customers example_db ! 1)"
    by (simp_all add: example_defs)
  have paid: "snd (process_payment 3 (example_env 2) example_db) =
      example_db\<lparr>service_requests :=
        [example_requests ! 0, example_requests ! 1,
         (example_requests ! 2)\<lparr>service_status := PAID, date_of_completion := Some 1704153600,
                                  updated_at := 1704153601\<rparr>]\<rparr>"
    by (simp add: process_payment_def access_defs update_request_def store_defs example_defs)
  note t = process_payment_only_closed[OF example_alice example_request_3]
  from t own3 obtain db' where d: "process_payment 3 (example_env 2) example_db =
         (Redirect ''customer.service_history''
            (''Payment for request #'' @ str_int 3 @ '' was successful! Thank you.'',
             ''success''), db')"
      "process_payment 3 (example_env 2) db' =
         (Redirect ''customer.service_history''
            (''This service cannot be paid for at this time.'', ''warning''), db')"
    by blast
  from d(1) paid have e: "db' = example_db\<lparr>service_requests :=
        [example_requests ! 0, example_requests ! 1,
         (example_requests ! 2)\<lparr>service_status := PAID, date_of_completion := Some 1704153600,
                                  updated_at := 1704153601\<rparr>]\<rparr>"
    by simp
  from d e paid have a: "process_payment 3 (example_env 2) example_db =
     (Redirect ''customer.service_history''
        (''Payment for request #3 was successful! Thank you.'', ''success''),
      example_db\<lparr>service_requests :=
        [example_requests ! 0, example_requests ! 1,
         (example_requests ! 2)\<lparr>service_status := PAID, date_of_completion := Some 1704153600,
                                  updated_at := 1704153601\<rparr>]\<rparr>)
   \<and> process_payment 3 (example_env 2) (snd (process_payment 3 (example_env 2) example_db)) =
       (Redirect ''customer.service_history''
          (''This service cannot be paid for at this time.'', ''warning''),
        snd (process_payment 3 (example_env 2) example_db))"
    by (simp add: str_int_3)
  from process_payment_only_closed[OF example_alice example_request_1] own1
  have b: "process_payment 1 (example_env 2) example_db =
       (Redirect ''customer.service_history''
          (''This service cannot be paid for at this time.'', ''warning''), example_db)"
    by blast
  from process_payment_only_closed[OF example_dave example_request_3] other
  have c: "process_payment 3 (example_env 5) example_db = (Abort 403, example_db)"
    by blast
  from a b c show ?thesis by blast
qed

lemma update_service_request_cases:
  assumes "current_user env db = Some u" "is_active u" "role u = ''customer''"
    "user_customer db u = Some c" "\<not> c_admin_blocked c"
    "int_fits rid" "get_request db rid = Some r"
  shows "update_service_request rid form env db =
    (if sr_customer_id r \<noteq> c_id c then (Abort 403, db)
     else if service_status r \<noteq> REQUESTED
     then (Redirect ''customer.service_history''
             (''You can only edit requests that are still pending.'', ''warning''), db)
     else if \<not> uf_validate_on_submit form
     then (Redirect ''customer.service_history'' (''Invalid price submitted.'', ''danger''), db)
     else if store_failure env
     then (Redirect ''customer.service_history'' (''Database error occurred.'', ''danger''), db)
     else (Redirect ''customer.service_history''
             (''Your service request has been updated successfully.'', ''success''),
           db\<lparr>service_requests :=
                map (\<lambda>x. if sr_id x = rid
                          then onupdate env x (x\<lparr>proposed_price := uf_proposed_price form\<rparr>)
                          else x) (service_requests db)\<rparr>))"
  using assms(4,6,7) get_request_key[OF assms(7)]
  by (simp add: update_service_request_def customer_required_pass[OF assms(1-5)] get_or_404_def
      try_commit_def commit_def update_request_def)

lemma find_map_other:
  "(\<And>x. key (g x) = key x) \<Longrightarrow> j \<noteq> i \<Longrightarrow>
   find (\<lambda>r. key r = j) (map (\<lambda>r. if key r = i then g r else r) xs)
     = find (\<lambda>r. key r = j) xs"
  by (induction xs) auto

lemma get_request_other:
  "(\<And>r. sr_id (g r) = sr_id r) \<Longrightarrow> j \<noteq> i \<Longrightarrow>
   get_request (db\<lparr>service_requests :=
                 map (\<lambda>r. if sr_id r = i then g r else r) (service_requests db)\<rparr>) j
     = get_request db j"
  unfolding get_request_def by (simp add: find_map_other)

lemma map_key_update:
  "(\<And>x. key (g x) = key x) \<Longrightarrow>
   map (key \<circ> (\<lambda>r. if key r = i then g r else r)) xs = map key xs"
  by (induction xs) auto

lemma price_row:
  fixes r :: ServiceRequests and env :: env and v :: "real option"
  defines "r' \<equiv> onupdate env r (r\<lparr>proposed_price := v\<rparr>)"
  shows "proposed_price r' = v" "service_status r' = service_status r"
    "sr_professional_id r' = sr_professional_id r" "sr_customer_id r' = sr_customer_id r"
    "sr_service_id r' = sr_service_id r" "date_of_request r' = date_of_request r"
    "date_of_completion r' = date_of_completion r" "sr_remarks r' = sr_remarks r"
    "sr_id r' = sr_id r" "created_at r' = created_at r"
proof -
  show "proposed_price r' = v"
  proof (cases "r\<lparr>proposed_price := v\<rparr> = r")
    case True
    then have "proposed_price (r\<lparr>proposed_price := v\<rparr>) = proposed_price r" by simp
    with True show ?thesis by (simp add: r'_def onupdate_def)
  next
    case False
    then show ?thesis by (simp add: r'_def onupdate_def)
  qed
qed (simp_all add: r'_def onupdate_def)

text \<open>
  Claim C6. For an authenticated, unblocked customer and an existing request: a
  requester who does not own the request gets 403, and the owner of a request that is not
  REQUESTED gets the warning; in both cases, and whenever the update does not succeed,
  the database is unchanged. The update succeeds exactly for the owner of a REQUESTED
  request with a valid form and a commit that goes through. Then the request's row has
  the new proposed price and the status, professional, customer, service, request date,
  completion date, remarks, key and \<open>created_at\<close> it had; of its columns only the price
  and, where the price changed, \<open>updated_at\<close> differ from before. Every other request,
  the reviews and every other table are unchanged.
\<close>

theorem update_service_request_frame:
  assumes "current_user env db = Some u" "is_active u" "role u = ''customer''"
    "user_customer db u = Some c" "\<not> c_admin_blocked c"
    "int_fits rid" "get_request db rid = Some r"
  shows "(sr_customer_id r \<noteq> c_id c \<longrightarrow>
            update_service_request rid form env db = (Abort 403, db))
    \<and> (sr_customer_id r = c_id c \<and> service_status r \<noteq> REQUESTED \<longrightarrow>
         update_service_request rid form env db =
           (Redirect ''customer.service_history''
              (''You can only edit requests that are still pending.'', ''warning''), db))
    \<and> (succeeded (fst (update_service_request rid form env db)) =
         (sr_customer_id r = c_id c \<and> service_status r = REQUESTED
          \<and> uf_validate_on_submit form \<and> \<not> store_failure env))
    \<and> (\<not> succeeded (fst (update_service_request rid form env db)) \<longrightarrow>
         snd (update_service_request rid form env db) = db)
    \<and> (succeeded (fst (update_service_request rid form env db)) \<longrightarrow>
         (\<exists>db' r'. snd (update_service_request rid form env db) = db'
            \<and> get_request db' rid = Some r'
            \<and> r' = onupdate env r (r\<lparr>proposed_price := uf_proposed_price form\<rparr>)
            \<and> proposed_price r' = uf_proposed_price form
            \<and> service_status r' = service_status r
            \<and> sr_professional_id r' = sr_professional_id r
            \<and> sr_customer_id r' = sr_customer_id r
            \<and> sr_service_id r' = sr_service_id r
            \<and> date_of_request r' = date_of_request r
            \<and> date_of_completion r' = date_of_completion r
            \<and> sr_remarks r' = sr_remarks r
            \<and> sr_id r' = sr_id r
            \<and> created_at r' = created_at r
            \<and> reviews db' = reviews db
            \<and> (\<forall>j. j \<noteq> rid \<longrightarrow> get_request db' j = get_request db j)
            \<and> map sr_id (service_requests db') = map sr_id (service_requests db)
            \<and> db'\<lparr>service_requests := service_requests db\<rparr> = db))"
proof -
  let ?res = "update_service_request rid form env db"
  let ?g = "\<lambda>x. onupdate env x (x\<lparr>proposed_price := uf_proposed_price form\<rparr>)"
  have gid: "\<And>x. sr_id (?g x) = sr_id x" by (simp add: sr_id_onupdate)
  note c = update_service_request_cases[OF assms, of form]
  have 1: "sr_customer_id r \<noteq> c_id c \<longrightarrow> ?res = (Abort 403, db)"
    by (simp add: c)
  have 2: "sr_customer_id r = c_id c \<and> service_status r \<noteq> REQUESTED \<longrightarrow>
         ?res = (Redirect ''customer.service_history''
              (''You can only edit requests that are still pending.'', ''warning''), db)"
    by (simp add: c)
  have 3: "succeeded (fst ?res) =
         (sr_customer_id r = c_id c \<and> service_status r = REQUESTED
          \<and> uf_validate_on_submit form \<and> \<not> store_failure env)"
    by (simp add: c succeeded_def)
  have 4: "\<not> succeeded (fst ?res) \<longrightarrow> snd ?res = db"
    by (simp add: c succeeded_def)
  have 5: "succeeded (fst ?res) \<longrightarrow>
         (\<exists>db' r'. snd ?res = db'
            \<and> get_request db' rid = Some r'
            \<and> r' = ?g r
            \<and> proposed_price r' = uf_proposed_price form
            \<and> service_status r' = service_status r
            \<and> sr_professional_id r' = sr_professional_id r
            \<and> sr_customer_id r' = sr_customer_id r
            \<and> sr_service_id r' = sr_service_id r
            \<and> date_of_request r' = date_of_request r
            \<and> date_of_completion r' = date_of_completion r
            \<and> sr_remarks r' = sr_remarks r
            \<and> sr_id r' = sr_id r
            \<and> created_at r' = created_at r
            \<and> reviews db' = reviews db
            \<and> (\<forall>j. j \<noteq> rid \<longrightarrow> get_request db' j = get_request db j)
            \<and> map sr_id (service_requests db') = map sr_id (service_requests db)
            \<and> db'\<lparr>service_requests := service_requests db\<rparr> = db)"
  proof
    assume s: "succeeded (fst ?res)"
    let ?db' = "db\<lparr>service_requests :=
                map (\<lambda>x. if sr_id x = rid then ?g x else x) (service_requests db)\<rparr>"
    from s 3 have e: "snd ?res = ?db'" by (simp add: c)
    have g: "get_request ?db' rid = Some (?g r)"
      using assms(7) get_request_key[OF assms(7)]
      by (simp add: get_request_updated[of ?g, OF gid])
    have o: "\<forall>j. j \<noteq> rid \<longrightarrow> get_request ?db' j = get_request db j"
      using get_request_other[of ?g _ rid db, OF gid] by simp
    have k: "map sr_id (service_requests ?db') = map sr_id (service_requests db)"
      using map_key_update[of sr_id ?g rid "service_requests db", OF gid] by simp
    have f: "?db'\<lparr>service_requests := service_requests db\<rparr> = db" "reviews ?db' = reviews db"
      by simp_all
    from e g o k f price_row[of env r "uf_proposed_price form"]
    show "\<exists>db' r'. snd ?res = db'
            \<and> get_request db' rid = Some r'
            \<and> r' = ?g r
            \<and> proposed_price r' = uf_proposed_price form
            \<and> service_status r' = service_status r
            \<and> sr_professional_id r' = sr_professional_id r
            \<and> sr_customer_id r' = sr_customer_id r
            \<and> sr_service_id r' = sr_service_id r
            \<and> date_of_request r' = date_of_request r
            \<and> date_of_completion r' = date_of_completion r
            \<and> sr_remarks r' = sr_remarks r
            \<and> sr_id r' = sr_id r
            \<and> created_at r' = created_at r
            \<and> reviews db' = reviews db
            \<and> (\<forall>j. j \<noteq> rid \<longrightarrow> get_request db' j = get_request db j)
            \<and> map sr_id (service_requests db') = map sr_id (service_requests db)
            \<and> db'\<lparr>service_requests := service_requests db\<rparr> = db"
      by (intro exI conjI) (assumption | rule refl)+
  qed
  from 1 2 3 4 5 show ?thesis by blast
qed

theorem update_service_request_frame_witness:
  "update_service_request 1 \<lparr>uf_validate_on_submit = True, uf_proposed_price = Some 150\<rparr>
       (example_env 2) example_db =
     (Redirect ''customer.service_history''
        (''Your service request has been updated successfully.'', ''success''),
      example_db\<lparr>service_requests :=
        [(example_requests ! 0)\<lparr>proposed_price := Some 150, updated_at := 1704153601\<rparr>,
         example_requests ! 1, example_requests ! 2]\<rparr>)
   \<and> get_request (snd (update_service_request 1
         \<lparr>uf_validate_on_submit = True, uf_proposed_price = Some 150\<rparr> (example_env 2) example_db)) 1
       = Some ((example_requests ! 0)\<lparr>proposed_price := Some 150, updated_at := 1704153601\<rparr>)
   \<and> update_service_request 3 \<lparr>uf_validate_on_submit = True, uf_proposed_price = Some 150\<rparr>
       (example_env 2) example_db =
       (Redirect ''customer.service_history''
          (''You can only edit requests that are still pending.'', ''warning''), example_db)
   \<and> update_service_request 1 \<lparr>uf_validate_on_submit = True, uf_proposed_price = Some 150\<rparr>
       (example_env 5) example_db = (Abort 403, example_db)"
proof -
  let ?form = "\<lparr>uf_validate_on_submit = True, uf_proposed_price = Some 150\<rparr>"
  have own1: "sr_customer_id (example_requests ! 0) = c_id (customers example_db ! 0)"
    "service_status (example_requests ! 0) = REQUESTED"
    "uf_validate_on_submit ?form"
    "\<not> store_failure (example_env 2)"
    and own3: "sr_customer_id (example_requests ! 2) = c_id (customers example_db ! 0)"
    "service_status (example_requests ! 2) \<noteq> REQUESTED"
    and other: "sr_customer_id (example_requests ! 0) \<noteq> c_id (customers example_db ! 1)"
    by (simp_all add: example_defs)
  have row: "onupdate (example_env 2) (example_requests ! 0)
               ((example_requests ! 0)\<lparr>proposed_price := uf_proposed_price ?form\<rparr>)
             = (example_requests ! 0)\<lparr>proposed_price := Some 150, updated_at := 1704153601\<rparr>"
    by (simp add: onupdate_def example_defs)
  have res: "update_service_request 1 ?form (example_env 2) example_db =
     (Redirect ''customer.service_history''
        (''Your service request has been updated successfully.'', ''success''),
      example_db\<lparr>service_requests :=
        [(example_requests ! 0)\<lparr>proposed_price := Some 150, updated_at := 1704153601\<rparr>,
         example_requests ! 1, example_requests ! 2]\<rparr>)"
    by (simp add: update_service_request_def access_defs update_request_def
        store_defs example_defs)
  note t1 = update_service_request_frame[OF example_alice example_request_1, of ?form]
  from t1 own1 have s: "succeeded (fst (update_service_request 1 ?form (example_env 2) example_db))"
    by blast
  from t1 s have "get_request (snd (update_service_request 1 ?form (example_env 2) example_db)) 1
       = Some (onupdate (example_env 2) (example_requests ! 0)
               ((example_requests ! 0)\<lparr>proposed_price := uf_proposed_price ?form\<rparr>))"
    by blast
  then have a: "get_request (snd (update_service_request 1 ?form (example_env 2) example_db)) 1
       = Some ((example_requests ! 0)\<lparr>proposed_price := Some 150, updated_at := 1704153601\<rparr>)"
    unfolding row .
  from update_service_request_frame[OF example_alice example_request_3, of ?form] own3
  have b: "update_service_request 3 ?form (example_env 2) example_db =
       (Redirect ''customer.service_history''
          (''You can only edit requests that are still pending.'', ''warning''), example_db)"
    by blast
  from update_service_request_frame[OF example_dave example_request_1, of ?form] other
  have c: "update_service_request 1 ?form (example_env 5) example_db = (Abort 403, example_db)"
    by blast
  from res a b c show ?thesis by blast
qed

section \<open>Reassignment\<close>

lemma reassign_professional_cases:
  assumes "current_user env db = Some u" "is_active u" "role u = ''admin''"
    "int_fits rid" "get_request db rid = Some r"
  shows "reassign_professional rid np env db =
    (if np = None \<or> np = Some 0
     then (Redirect ''admin.admin_dashboard'' (''You must select a professional.'', ''danger''), db)
     else if service_status r \<noteq> REJECTED
     then (Redirect ''admin.admin_dashboard''
             (''Only rejected requests can be reassigned.'', ''warning''), db)
     else if store_failure env
     then (Redirect ''admin.admin_dashboard''
             (''Database error during reassignment.'', ''danger''), db)
     else if \<not> int_fits (the np) then (Raise OverflowError, db)
     else if \<not> fk_ok env (map p_id (service_professionals db)) (the np)
     then (Redirect ''admin.admin_dashboard''
             (''Database error during reassignment.'', ''danger''), db)
     else (Redirect ''admin.admin_dashboard''
             (''Request #'' @ str_int rid @ '' has been reassigned successfully.'', ''success''),
           db\<lparr>service_requests :=
                map (\<lambda>x. if sr_id x = rid
                          then onupdate env x
                                 (x\<lparr>sr_professional_id := Some (the np),
                                    service_status := REQUESTED\<rparr>)
                          else x) (service_requests db)\<rparr>))"
  using assms(4,5) get_request_key[OF assms(5)]
  by (simp add: reassign_professional_def admin_required_pass[OF assms(1-3)] get_or_404_def
      try_commit_def commit_def update_request_professional_def update_request_def)

lemma reassigned_row:
  "service_status r = REJECTED \<Longrightarrow>
   onupdate env r (r\<lparr>sr_professional_id := p, service_status := REQUESTED\<rparr>)
     = r\<lparr>sr_professional_id := p, service_status := REQUESTED, updated_at := now_utc env\<rparr>"
proof -
  assume a: "service_status r = REJECTED"
  have "r\<lparr>sr_professional_id := p, service_status := REQUESTED\<rparr> \<noteq> r"
  proof
    assume "r\<lparr>sr_professional_id := p, service_status := REQUESTED\<rparr> = r"
    then have "service_status (r\<lparr>sr_professional_id := p, service_status := REQUESTED\<rparr>)
                 = service_status r" by simp
    with a show False by simp
  qed
  then show ?thesis by (simp add: onupdate_def)
qed

text \<open>
  Claim C4. For an authenticated administrator, an existing request and a professional
  id that is given (not 0) and fits the column: a request that is not REJECTED gets the
  warning and nothing changes (nothing changes either when no professional id is
  given). The reassignment succeeds exactly when the request is REJECTED and the commit
  goes through (the store does not fail and, where it enforces foreign keys, the
  professional exists). When it does not succeed the database is unchanged; when it
  succeeds the request's row is the old row with the new professional and status
  REQUESTED, both together (and \<open>updated_at\<close> rewritten by the update), and every other
  request and table is unchanged.
\<close>

theorem reassign_professional_only_rejected:
  assumes "current_user env db = Some u" "is_active u" "role u = ''admin''"
    "int_fits rid" "get_request db rid = Some r" "n \<noteq> 0" "int_fits n"
  shows "(service_status r \<noteq> REJECTED \<longrightarrow>
            reassign_professional rid (Some n) env db =
              (Redirect ''admin.admin_dashboard''
                 (''Only rejected requests can be reassigned.'', ''warning''), db))
    \<and> (\<forall>np. service_status r \<noteq> REJECTED \<longrightarrow>
          snd (reassign_professional rid np env db) = db
          \<and> \<not> succeeded (fst (reassign_professional rid np env db)))
    \<and> (succeeded (fst (reassign_professional rid (Some n) env db)) =
         (service_status r = REJECTED \<and> \<not> store_failure env
          \<and> fk_ok env (map p_id (service_professionals db)) n))
    \<and> (\<not> succeeded (fst (reassign_professional rid (Some n) env db)) \<longrightarrow>
         snd (reassign_professional rid (Some n) env db) = db)
    \<and> (succeeded (fst (reassign_professional rid (Some n) env db)) \<longrightarrow>
         (\<exists>db' r'. snd (reassign_professional rid (Some n) env db) = db'
            \<and> get_request db' rid = Some r'
            \<and> r' = r\<lparr>sr_professional_id := Some n, service_status := REQUESTED,
                      updated_at := now_utc env\<rparr>
            \<and> sr_professional_id r' = Some n
            \<and> service_status r' = REQUESTED
            \<and> (\<forall>j. j \<noteq> rid \<longrightarrow> get_request db' j = get_request db j)
            \<and> db'\<lparr>service_requests := service_requests db\<rparr> = db))"
proof -
  let ?res = "reassign_professional rid (Some n) env db"
  let ?g = "\<lambda>x. onupdate env x (x\<lparr>sr_professional_id := Some n, service_status := REQUESTED\<rparr>)"
  have gid: "\<And>x. sr_id (?g x) = sr_id x" by (simp add: sr_id_onupdate)
  note c = reassign_professional_cases[OF assms(1-5)]
  have 1: "service_status r \<noteq> REJECTED \<longrightarrow>
            ?res = (Redirect ''admin.admin_dashboard''
                 (''Only rejected requests can be reassigned.'', ''warning''), db)"
    using assms(6) by (simp add: c)
  have 2: "\<forall>np. service_status r \<noteq> REJECTED \<longrightarrow>
          snd (reassign_professional rid np env db) = db
          \<and> \<not> succeeded (fst (reassign_professional rid np env db))"
    by (simp add: c succeeded_def)
  have 3: "succeeded (fst ?res) =
         (service_status r = REJECTED \<and> \<not> store_failure env
          \<and> fk_ok env (map p_id (service_professionals db)) n)"
    using assms(6,7) by (simp add: c succeeded_def)
  have 4: "\<not> succeeded (fst ?res) \<longrightarrow> snd ?res = db"
    using assms(6,7) by (simp add: c succeeded_def)
  have 5: "succeeded (fst ?res) \<longrightarrow>
         (\<exists>db' r'. snd ?res = db'
            \<and> get_request db' rid = Some r'
            \<and> r' = r\<lparr>sr_professional_id := Some n, service_status := REQUESTED,
                      updated_at := now_utc env\<rparr>
            \<and> sr_professional_id r' = Some n
            \<and> service_status r' = REQUESTED
            \<and> (\<forall>j. j \<noteq> rid \<longrightarrow> get_request db' j = get_request db j)
            \<and> db'\<lparr>service_requests := service_requests db\<rparr> = db)"
  proof
    assume s: "succeeded (fst ?res)"
    let ?db' = "db\<lparr>service_requests :=
                map (\<lambda>x. if sr_id x = rid then ?g x else x) (service_requests db)\<rparr>"
    from s 3 have st: "service_status r = REJECTED" by simp
    from s 3 assms(6,7) have e: "snd ?res = ?db'" by (simp add: c)
    have g: "get_request ?db' rid
               = Some (r\<lparr>sr_professional_id := Some n, service_status := REQUESTED,
                         updated_at := now_utc env\<rparr>)"
      using assms(5) get_request_key[OF assms(5)] st
      by (simp add: get_request_updated[of ?g, OF gid] reassigned_row)
    have o: "\<forall>j. j \<noteq> rid \<longrightarrow> get_request ?db' j = get_request db j"
      using get_request_other[of ?g _ rid db, OF gid] by simp
    have f: "?db'\<lparr>service_requests := service_requests db\<rparr> = db"
      by simp
    from e g o f show "\<exists>db' r'. snd ?res = db'
            \<and> get_request db' rid = Some r'
            \<and> r' = r\<lparr>sr_professional_id := Some n, service_status := REQUESTED,
                      updated_at := now_utc env\<rparr>
            \<and> sr_professional_id r' = Some n
            \<and> service_status r' = REQUESTED
            \<and> (\<forall>j. j \<noteq> rid \<longrightarrow> get_request db' j = get_request db j)
            \<and> db'\<lparr>service_requests := service_requests db\<rparr> = db"
      by simp
  qed
  from 1 2 3 4 5 show ?thesis by blast
qed

lemma str_int_2: "str_int 2 = ''2''"
  by (simp add: str_int_def str_nat.simps digit_char_def)

theorem reassign_professional_only_rejected_witness:
  "succeeded (fst (reassign_professional 2 (Some 1) (example_env 1) example_db))
   \<and> get_request (snd (reassign_professional 2 (Some 1) (example_env 1) example_db)) 2
       = Some ((example_requests ! 1)\<lparr>sr_professional_id := Some 1, service_status := REQUESTED,
                                       updated_at := 1704153601\<rparr>)
   \<and> reassign_professional 1 (Some 2) (example_env 1) example_db =
       (Redirect ''admin.admin_dashboard''
          (''Only rejected requests can be reassigned.'', ''warning''), example_db)
   \<and> reassign_professional 2 (Some 7) (example_env 1) example_db =
       (Redirect ''admin.admin_dashboard''
          (''Database error during reassignment.'', ''danger''), example_db)
   \<and> reassign_professional 2 (Some (2 ^ 63)) (example_env 1) example_db =
       (Raise OverflowError, example_db)"
proof -
  have st: "service_status (example_requests ! 1) = REJECTED"
    "\<not> store_failure (example_env 1)"
    "fk_ok (example_env 1) (map p_id (service_professionals example_db)) 1"
    "service_status (example_requests ! 0) \<noteq> REJECTED"
    "now_utc (example_env 1) = 1704153601"
    by (simp_all add: store_defs example_defs)
  have ne: "(1::int) \<noteq> 0" "int_fits 1" "(2::int) \<noteq> 0" "int_fits 2"
    by (simp_all add: int_fits_def)
  note t = reassign_professional_only_rejected[OF example_root example_request_2 ne(1,2)]
  from t st have s: "succeeded (fst (reassign_professional 2 (Some 1) (example_env 1) example_db))"
    by blast
  from t s have "get_request (snd (reassign_professional 2 (Some 1) (example_env 1) example_db)) 2
       = Some ((example_requests ! 1)\<lparr>sr_professional_id := Some 1, service_status := REQUESTED,
                                       updated_at := now_utc (example_env 1)\<rparr>)"
    by blast
  then have a: "get_request (snd (reassign_professional 2 (Some 1) (example_env 1) example_db)) 2
       = Some ((example_requests ! 1)\<lparr>sr_professional_id := Some 1, service_status := REQUESTED,
                                       updated_at := 1704153601\<rparr>)"
    unfolding st(5) .
  from reassign_professional_only_rejected[OF example_root example_request_1 ne(3,4)] st
  have b: "reassign_professional 1 (Some 2) (example_env 1) example_db =
       (Redirect ''admin.admin_dashboard''
          (''Only rejected requests can be reassigned.'', ''warning''), example_db)"
    by blast
  have c: "reassign_professional 2 (Some 7) (example_env 1) example_db =
       (Redirect ''admin.admin_dashboard''
          (''Database error during reassignment.'', ''danger''), example_db)"
    by (simp add: reassign_professional_cases[OF example_root example_request_2])
       (simp add: store_defs example_defs)
  have d: "reassign_professional 2 (Some (2 ^ 63)) (example_env 1) example_db =
       (Raise OverflowError, example_db)"
    by (simp add: reassign_professional_cases[OF example_root example_request_2])
       (simp add: store_defs example_defs)
  from s a b c d show ?thesis by blast
qed

section \<open>Reviews\<close>

lemma user_customer_mem: "user_customer db u = Some c \<Longrightarrow> c_id c \<in> c_id ` set (customers db)"
  by (auto simp: user_customer_def find_Some_iff)

lemma get_request_mem: "get_request db i = Some r \<Longrightarrow> i \<in> sr_id ` set (service_requests db)"
  by (force simp: get_request_def find_Some_iff)

lemma get_professional_mem:
  "get_professional db i = Some p \<Longrightarrow> i \<in> p_id ` set (service_professionals db)"
  by (force simp: get_professional_def find_Some_iff)

text \<open>The integers a review of request \<open>r\<close> by customer \<open>c\<close> binds besides the
  request's key.\<close>

lemma insert_review_result:
  "insert_review env rv db =
     (if \<not> (int_fits (rv_customer_id rv) \<and> int_fits (rv_service_id rv)
             \<and> int_fits (rv_service_request_id rv) \<and> int_fits (rating rv)
             \<and> (case rv_professional_id rv of None \<Rightarrow> True | Some p \<Rightarrow> int_fits p))
      then Inl OverflowError
      else if rv_professional_id rv = None \<or> rating rv < 1 \<or> 5 < rating rv
         \<or> rv_service_request_id rv \<in> set (map rv_service_request_id (reviews db))
         \<or> \<not> fk_ok env (map c_id (customers db)) (rv_customer_id rv)
         \<or> \<not> fk_ok env (map p_id (service_professionals db)) (the (rv_professional_id rv))
         \<or> \<not> fk_ok env (map s_id (services db)) (rv_service_id rv)
         \<or> \<not> fk_ok env (map sr_id (service_requests db)) (rv_service_request_id rv)
      then Inl IntegrityError
      else Inr (db\<lparr>reviews := reviews db @
                  [rv\<lparr>created_at := now_utc env, updated_at := now_utc env,
                      rv_id := next_id (map rv_id (reviews db))\<rparr>]\<rparr>))"
  by (cases "rv_professional_id rv") (simp_all add: insert_review_def)

lemma review_service_cases:
  assumes "current_user env db = Some u" "is_active u" "role u = ''customer''"
    "user_customer db u = Some c" "\<not> c_admin_blocked c"
    "int_fits rid" "get_request db rid = Some r"
  shows "review_service rid form env db =
    (if sr_customer_id r \<noteq> c_id c then (Abort 403, db)
     else if \<not> rf_validate_on_submit form
     then (Redirect ''customer.service_history''
             (''There was an error with your review submission.'', ''danger''), db)
     else if store_failure env
     then (Redirect ''customer.service_history''
             (''An error occurred while saving your review.'', ''danger''), db)
     else if \<not> (int_fits (c_id c) \<and> int_fits (sr_service_id r) \<and> int_fits (rf_rating form)
                \<and> (case sr_professional_id r of None \<Rightarrow> True | Some p \<Rightarrow> int_fits p))
     then (Raise OverflowError, db)
     else if sr_professional_id r = None
             \<or> rf_rating form < 1 \<or> 5 < rf_rating form
             \<or> rid \<in> set (map rv_service_request_id (reviews db))
             \<or> \<not> fk_ok env (map p_id (service_professionals db)) (the (sr_professional_id r))
             \<or> \<not> fk_ok env (map s_id (services db)) (sr_service_id r)
     then (Redirect ''customer.service_history''
             (''An error occurred while saving your review.'', ''danger''), db)
     else (Redirect ''customer.service_history''
             (''Thank you for your review! You can now proceed to payment.'', ''success''),
           db\<lparr>service_requests :=
                map (\<lambda>x. if sr_id x = rid
                          then onupdate env x
                                 (x\<lparr>service_status := CLOSED,
                                    date_of_completion := Some (utcnow env)\<rparr>)
                          else x) (service_requests db),
              reviews := reviews db @
                [\<lparr>created_at = now_utc env, updated_at = now_utc env,
                  rv_id = next_id (map rv_id (reviews db)), rv_customer_id = c_id c,
                  rv_professional_id = sr_professional_id r, rv_service_id = sr_service_id r,
                  rv_service_request_id = rid, rating = rf_rating form,
                  rv_remarks = rf_remarks form\<rparr>]\<rparr>))"
proof -
  let ?g = "\<lambda>x. onupdate env x
                   (x\<lparr>service_status := CLOSED, date_of_completion := Some (utcnow env)\<rparr>)"
  have gid: "\<And>x. sr_id (?g x) = sr_id x" by (simp add: sr_id_onupdate)
  have k: "sr_id r = rid" by (rule get_request_key[OF assms(7)])
  have fc: "fk_ok env (map c_id (customers db)) (c_id c)"
    using user_customer_mem[OF assms(4)] by (simp add: fk_ok_def)
  have ids: "map (sr_id \<circ> (\<lambda>x. if sr_id x = rid then ?g x else x)) (service_requests db)
               = map sr_id (service_requests db)"
    by (rule map_key_update[of sr_id ?g, OF gid])
  have fr: "fk_ok env (map sr_id (service_requests db)) rid"
    using get_request_mem[OF assms(7)] by (simp add: fk_ok_def)
  show ?thesis
    using k fc fr assms(4,6,7)
    by (simp add: review_service_def customer_required_pass[OF assms(1-5)] get_or_404_def
        try_commit_def commit_def and_then_def update_request_def insert_review_result ids)
qed

lemma review_service_committed:
  assumes "current_user env db = Some u" "is_active u" "role u = ''customer''"
    "user_customer db u = Some c" "\<not> c_admin_blocked c"
    "int_fits rid" "get_request db rid = Some r"
    "succeeded (fst (review_service rid form env db))"
  shows "snd (review_service rid form env db) =
           db\<lparr>service_requests :=
                map (\<lambda>x. if sr_id x = rid
                          then onupdate env x
                                 (x\<lparr>service_status := CLOSED,
                                    date_of_completion := Some (utcnow env)\<rparr>)
                          else x) (service_requests db),
              reviews := reviews db @
                [\<lparr>created_at = now_utc env, updated_at = now_utc env,
                  rv_id = next_id (map rv_id (reviews db)), rv_customer_id = c_id c,
                  rv_professional_id = sr_professional_id r, rv_service_id = sr_service_id r,
                  rv_service_request_id = rid, rating = rf_rating form,
                  rv_remarks = rf_remarks form\<rparr>]\<rparr>"
    and "rid \<notin> set (map rv_service_request_id (reviews db))"
    and "sr_customer_id r = c_id c"
  using assms(8) unfolding review_service_cases[OF assms(1-7)]
  by (auto simp: succeeded_def split: if_splits)

lemma review_service_again:
  assumes "current_user env db = Some u" "is_active u" "role u = ''customer''"
    "user_customer db u = Some c" "\<not> c_admin_blocked c"
    "int_fits rid" "get_request db rid = Some r"
    "rid \<in> set (map rv_service_request_id (reviews db))"
  shows "snd (review_service rid form env db) = db"
    and "\<not> succeeded (fst (review_service rid form env db))"
    and "sr_customer_id r = c_id c \<Longrightarrow> rf_validate_on_submit form \<Longrightarrow>
         int_fits (c_id c) \<and> int_fits (sr_service_id r) \<and> int_fits (rf_rating form)
           \<and> (case sr_professional_id r of None \<Rightarrow> True | Some p \<Rightarrow> int_fits p) \<Longrightarrow>
         fst (review_service rid form env db) =
           Redirect ''customer.service_history''
             (''An error occurred while saving your review.'', ''danger'')"
  using assms(8) unfolding review_service_cases[OF assms(1-7)]
  by (simp_all add: succeeded_def)

lemma closed_row:
  fixes r :: ServiceRequests and env :: env and d :: "datetime option"
  defines "r' \<equiv> onupdate env r (r\<lparr>service_status := CLOSED, date_of_completion := d\<rparr>)"
  shows "service_status r' = CLOSED" "date_of_completion r' = d"
proof -
  let ?q = "r\<lparr>service_status := CLOSED, date_of_completion := d\<rparr>"
  show "service_status r' = CLOSED"
  proof (cases "?q = r")
    case True
    from arg_cong[OF True, of service_status] have "service_status r = CLOSED" by simp
    with True show ?thesis by (simp add: r'_def onupdate_def)
  next
    case False
    then show ?thesis by (simp add: r'_def onupdate_def)
  qed
  show "date_of_completion r' = d"
  proof (cases "?q = r")
    case True
    from arg_cong[OF True, of date_of_completion] have "date_of_completion r = d" by simp
    with True show ?thesis by (simp add: r'_def onupdate_def)
  next
    case False
    then show ?thesis by (simp add: r'_def onupdate_def)
  qed
qed

lemma rating_fits: "1 \<le> i \<Longrightarrow> i \<le> 5 \<Longrightarrow> int_fits i"
  by (simp add: int_fits_def)

text \<open>
  Claim C5. The review handler looks at no status. For an authenticated, unblocked
  customer and a request of their own, whatever its status (REQUESTED in particular),
  that has a professional and no review yet: with a valid form, a rating from 1 to 5 and
  a commit that goes through (the store does not fail, the keys fit their columns and,
  where foreign keys are enforced, the request's professional and service exist), the
  review succeeds, the review row is stored, and the request is CLOSED with the current
  time as completion date.
\<close>

theorem review_service_no_status_guard:
  assumes "current_user env db = Some u" "is_active u" "role u = ''customer''"
    "user_customer db u = Some c" "\<not> c_admin_blocked c"
    "int_fits rid" "get_request db rid = Some r" "sr_customer_id r = c_id c"
    "rid \<notin> set (map rv_service_request_id (reviews db))"
    "rf_validate_on_submit form" "1 \<le> rf_rating form" "rf_rating form \<le> 5"
    "sr_professional_id r = Some p" "\<not> store_failure env"
    "int_fits (c_id c)" "int_fits p" "int_fits (sr_service_id r)"
    "fk_ok env (map p_id (service_professionals db)) p"
    "fk_ok env (map s_id (services db)) (sr_service_id r)"
  shows "\<exists>db' r'. review_service rid form env db =
            (Redirect ''customer.service_history''
               (''Thank you for your review! You can now proceed to payment.'', ''success''),
             db')
         \<and> get_request db' rid = Some r'
         \<and> r' = onupdate env r
                  (r\<lparr>service_status := CLOSED, date_of_completion := Some (utcnow env)\<rparr>)
         \<and> service_status r' = CLOSED
         \<and> date_of_completion r' = Some (utcnow env)
         \<and> reviews db' = reviews db @
             [\<lparr>created_at = now_utc env, updated_at = now_utc env,
               rv_id = next_id (map rv_id (reviews db)), rv_customer_id = c_id c,
               rv_professional_id = Some p, rv_service_id = sr_service_id r,
               rv_service_request_id = rid, rating = rf_rating form,
               rv_remarks = rf_remarks form\<rparr>]"
proof -
  let ?g = "\<lambda>x. onupdate env x
                   (x\<lparr>service_status := CLOSED, date_of_completion := Some (utcnow env)\<rparr>)"
  let ?rv = "\<lparr>created_at = now_utc env, updated_at = now_utc env,
               rv_id = next_id (map rv_id (reviews db)), rv_customer_id = c_id c,
               rv_professional_id = Some p, rv_service_id = sr_service_id r,
               rv_service_request_id = rid, rating = rf_rating form,
               rv_remarks = rf_remarks form\<rparr>"
  let ?db' = "db\<lparr>service_requests :=
                map (\<lambda>x. if sr_id x = rid then ?g x else x) (service_requests db),
              reviews := reviews db @ [?rv]\<rparr>"
  have gid: "\<And>x. sr_id (?g x) = sr_id x" by (simp add: sr_id_onupdate)
  have 1: "review_service rid form env db =
            (Redirect ''customer.service_history''
               (''Thank you for your review! You can now proceed to payment.'', ''success''),
             ?db')"
    using assms(8-19) rating_fits[OF assms(11,12)]
    by (simp add: review_service_cases[OF assms(1-7)])
  have "get_request ?db' rid =
          get_request (db\<lparr>service_requests :=
            map (\<lambda>x. if sr_id x = rid then ?g x else x) (service_requests db)\<rparr>) rid"
    by (simp add: get_request_def)
  also have "\<dots> = Some (?g r)"
    using assms(7) get_request_key[OF assms(7)]
    by (simp add: get_request_updated[of ?g, OF gid])
  finally have 2: "get_request ?db' rid = Some (?g r)" .
  have 3: "reviews ?db' = reviews db @ [?rv]"
    by simp
  from 1 2 3 closed_row[of env r "Some (utcnow env)"] show ?thesis by blast
qed

text \<open>
  Claim C2. For the owning customer (authenticated, not blocked) and an existing
  request, the review is all or nothing: when it does not succeed the database is
  unchanged; when it succeeds there was no review of the request before, exactly one
  review row of the request is added, and the request is CLOSED with the current time as
  completion date. When the request already has a review, nothing is written and the
  review does not succeed: the insert breaks the uniqueness of
  \<^verbatim>\<open>service_request_id\<close>, the transaction is rolled back and the handler reports the
  error (for a valid form whose rating, like the keys of the rows, fits its column). So
  a second review after a successful one, with any form and at any time, fails and
  changes nothing.
\<close>

theorem review_service_atomic:
  assumes "current_user env db = Some u" "is_active u" "role u = ''customer''"
    "user_customer db u = Some c" "\<not> c_admin_blocked c"
    "int_fits rid" "get_request db rid = Some r" "sr_customer_id r = c_id c"
  shows "(\<not> succeeded (fst (review_service rid form env db)) \<longrightarrow>
            snd (review_service rid form env db) = db)
    \<and> (succeeded (fst (review_service rid form env db)) \<longrightarrow>
         rid \<notin> set (map rv_service_request_id (reviews db))
         \<and> (\<exists>rv. reviews (snd (review_service rid form env db)) = reviews db @ [rv]
               \<and> rv_service_request_id rv = rid \<and> rv_customer_id rv = c_id c
               \<and> rating rv = rf_rating form \<and> rv_remarks rv = rf_remarks form)
         \<and> (\<exists>r'. get_request (snd (review_service rid form env db)) rid = Some r'
               \<and> r' = onupdate env r
                        (r\<lparr>service_status := CLOSED, date_of_completion := Some (utcnow env)\<rparr>)
               \<and> service_status r' = CLOSED
               \<and> date_of_completion r' = Some (utcnow env)))
    \<and> (rid \<in> set (map rv_service_request_id (reviews db)) \<longrightarrow>
         snd (review_service rid form env db) = db
         \<and> \<not> succeeded (fst (review_service rid form env db))
         \<and> (rf_validate_on_submit form \<and> int_fits (rf_rating form)
              \<and> int_fits (c_id c) \<and> int_fits (sr_service_id r)
              \<and> (case sr_professional_id r of None \<Rightarrow> True | Some p \<Rightarrow> int_fits p) \<longrightarrow>
              fst (review_service rid form env db) =
                Redirect ''customer.service_history''
                  (''An error occurred while saving your review.'', ''danger'')))
    \<and> (succeeded (fst (review_service rid form env db)) \<longrightarrow>
         (\<forall>form' (env'::env). session_user_id env' = session_user_id env \<longrightarrow>
            snd (review_service rid form' env' (snd (review_service rid form env db)))
              = snd (review_service rid form env db)
            \<and> \<not> succeeded
                 (fst (review_service rid form' env' (snd (review_service rid form env db))))))"
proof -
  let ?res = "review_service rid form env db"
  let ?g = "\<lambda>x. onupdate env x
                   (x\<lparr>service_status := CLOSED, date_of_completion := Some (utcnow env)\<rparr>)"
  let ?rv = "\<lparr>created_at = now_utc env, updated_at = now_utc env,
               rv_id = next_id (map rv_id (reviews db)), rv_customer_id = c_id c,
               rv_professional_id = sr_professional_id r, rv_service_id = sr_service_id r,
               rv_service_request_id = rid, rating = rf_rating form,
               rv_remarks = rf_remarks form\<rparr>"
  let ?db' = "db\<lparr>service_requests :=
                map (\<lambda>x. if sr_id x = rid then ?g x else x) (service_requests db),
              reviews := reviews db @ [?rv]\<rparr>"
  note ctx = assms(1-7)
  have gid: "\<And>x. sr_id (?g x) = sr_id x" by (simp add: sr_id_onupdate)
  have 1: "\<not> succeeded (fst ?res) \<longrightarrow> snd ?res = db"
    by (simp add: review_service_cases[OF ctx] succeeded_def)
  have "get_request ?db' rid =
          get_request (db\<lparr>service_requests :=
            map (\<lambda>x. if sr_id x = rid then ?g x else x) (service_requests db)\<rparr>) rid"
    by (simp add: get_request_def)
  also have "\<dots> = Some (?g r)"
    using assms(7) get_request_key[OF assms(7)]
    by (simp add: get_request_updated[of ?g, OF gid])
  finally have g': "get_request ?db' rid = Some (?g r)" .
  have 2: "succeeded (fst ?res) \<longrightarrow>
         rid \<notin> set (map rv_service_request_id (reviews db))
         \<and> (\<exists>rv. reviews (snd ?res) = reviews db @ [rv]
               \<and> rv_service_request_id rv = rid \<and> rv_customer_id rv = c_id c
               \<and> rating rv = rf_rating form \<and> rv_remarks rv = rf_remarks form)
         \<and> (\<exists>r'. get_request (snd ?res) rid = Some r'
               \<and> r' = ?g r
               \<and> service_status r' = CLOSED
               \<and> date_of_completion r' = Some (utcnow env))"
  proof
    assume s: "succeeded (fst ?res)"
    note e = review_service_committed[OF ctx s]
    have "reviews (snd ?res) = reviews db @ [?rv]" by (simp add: e(1))
    moreover have "get_request (snd ?res) rid = Some (?g r)"
      using g' by (simp add: e(1))
    ultimately show "rid \<notin> set (map rv_service_request_id (reviews db))
         \<and> (\<exists>rv. reviews (snd ?res) = reviews db @ [rv]
               \<and> rv_service_request_id rv = rid \<and> rv_customer_id rv = c_id c
               \<and> rating rv = rf_rating form \<and> rv_remarks rv = rf_remarks form)
         \<and> (\<exists>r'. get_request (snd ?res) rid = Some r'
               \<and> r' = ?g r
               \<and> service_status r' = CLOSED
               \<and> date_of_completion r' = Some (utcnow env))"
      using e(2) closed_row[of env r "Some (utcnow env)"] by simp
  qed
  have 3: "rid \<in> set (map rv_service_request_id (reviews db)) \<longrightarrow>
         snd ?res = db \<and> \<not> succeeded (fst ?res)
         \<and> (rf_validate_on_submit form \<and> int_fits (rf_rating form)
              \<and> int_fits (c_id c) \<and> int_fits (sr_service_id r)
              \<and> (case sr_professional_id r of None \<Rightarrow> True | Some p \<Rightarrow> int_fits p) \<longrightarrow>
              fst ?res = Redirect ''customer.service_history''
                  (''An error occurred while saving your review.'', ''danger''))"
    using review_service_again[OF ctx, of form] assms(8) by blast
  have 4: "succeeded (fst ?res) \<longrightarrow>
         (\<forall>form' (env'::env). session_user_id env' = session_user_id env \<longrightarrow>
            snd (review_service rid form' env' (snd ?res)) = snd ?res
            \<and> \<not> succeeded (fst (review_service rid form' env' (snd ?res))))"
  proof (intro impI allI)
    fix form' and env' :: env
    assume s: "succeeded (fst ?res)" and se: "session_user_id env' = session_user_id env"
    have e: "snd ?res = ?db'" by (rule review_service_committed(1)[OF ctx s])
    have cu: "current_user env' ?db' = Some u"
      using assms(1) se current_user_eq[of env' env ?db' db] by simp
    have uc: "user_customer ?db' u = Some c"
      using assms(4) user_customer_eq[of ?db' db u] by simp
    have rv: "rid \<in> set (map rv_service_request_id (reviews ?db'))"
      by simp
    from review_service_again(1,2)[OF cu assms(2,3) uc assms(5,6) g' rv, of form']
    show "snd (review_service rid form' env' (snd ?res)) = snd ?res
            \<and> \<not> succeeded (fst (review_service rid form' env' (snd ?res)))"
      unfolding e by blast
  qed
  from 1 2 3 4 show ?thesis by blast
qed


theorem review_service_no_status_guard_witness:
  "service_status (example_requests ! 0) = REQUESTED
   \<and> fst (review_service 1 \<lparr>rf_validate_on_submit = True, rf_rating = 5, rf_remarks = Some ''great''\<rparr>
         (example_env 2) example_db) =
       Redirect ''customer.service_history''
         (''Thank you for your review! You can now proceed to payment.'', ''success'')
   \<and> get_request (snd (review_service 1
         \<lparr>rf_validate_on_submit = True, rf_rating = 5, rf_remarks = Some ''great''\<rparr>
         (example_env 2) example_db)) 1 =
       Some ((example_requests ! 0)\<lparr>service_status := CLOSED,
                                     date_of_completion := Some 1704153600,
                                     updated_at := 1704153601\<rparr>)
   \<and> reviews (snd (review_service 1
         \<lparr>rf_validate_on_submit = True, rf_rating = 5, rf_remarks = Some ''great''\<rparr>
         (example_env 2) example_db)) =
       reviews example_db @
         [\<lparr>created_at = 1704153601, updated_at = 1704153601,
           rv_id = 2, rv_customer_id = 1, rv_professional_id = Some 1, rv_service_id = 1,
           rv_service_request_id = 1, rating = 5, rv_remarks = Some ''great''\<rparr>]"
proof -
  let ?form = "\<lparr>rf_validate_on_submit = True, rf_rating = 5, rf_remarks = Some ''great''\<rparr>"
  have h: "sr_customer_id (example_requests ! 0) = c_id (customers example_db ! 0)"
    "1 \<notin> set (map rv_service_request_id (reviews example_db))"
    "rf_validate_on_submit ?form" "1 \<le> rf_rating ?form" "rf_rating ?form \<le> 5"
    "sr_professional_id (example_requests ! 0) = Some 1"
    "\<not> store_failure (example_env 2)"
    "int_fits (c_id (customers example_db ! 0))" "int_fits 1"
    "int_fits (sr_service_id (example_requests ! 0))"
    "fk_ok (example_env 2) (map p_id (service_professionals example_db)) 1"
    "fk_ok (example_env 2) (map s_id (services example_db)) (sr_service_id (example_requests ! 0))"
    by (simp_all add: store_defs example_defs)
  have v: "service_status (example_requests ! 0) = REQUESTED"
    by (simp add: example_defs)
  have row: "onupdate (example_env 2) (example_requests ! 0)
               ((example_requests ! 0)\<lparr>service_status := CLOSED,
                   date_of_completion := Some (utcnow (example_env 2))\<rparr>)
             = (example_requests ! 0)\<lparr>service_status := CLOSED,
                   date_of_completion := Some 1704153600, updated_at := 1704153601\<rparr>"
    by (simp add: onupdate_def example_defs)
  have rv: "\<lparr>created_at = now_utc (example_env 2), updated_at = now_utc (example_env 2),
             rv_id = next_id (map rv_id (reviews example_db)),
             rv_customer_id = c_id (customers example_db ! 0),
             rv_professional_id = Some 1,
             rv_service_id = sr_service_id (example_requests ! 0),
             rv_service_request_id = 1, rating = rf_rating ?form,
             rv_remarks = rf_remarks ?form\<rparr>
          = \<lparr>created_at = 1704153601, updated_at = 1704153601,
           rv_id = 2, rv_customer_id = 1, rv_professional_id = Some 1, rv_service_id = 1,
           rv_service_request_id = 1, rating = 5, rv_remarks = Some ''great''\<rparr>"
    by (simp add: store_defs example_defs)
  from review_service_no_status_guard[OF example_alice example_request_1 h]
  obtain db' where d: "review_service 1 ?form (example_env 2) example_db =
            (Redirect ''customer.service_history''
               (''Thank you for your review! You can now proceed to payment.'', ''success''),
             db')"
    "get_request db' 1 = Some (onupdate (example_env 2) (example_requests ! 0)
               ((example_requests ! 0)\<lparr>service_status := CLOSED,
                   date_of_completion := Some (utcnow (example_env 2))\<rparr>))"
    "reviews db' = reviews example_db @
       [\<lparr>created_at = now_utc (example_env 2), updated_at = now_utc (example_env 2),
             rv_id = next_id (map rv_id (reviews example_db)),
             rv_customer_id = c_id (customers example_db ! 0),
             rv_professional_id = Some 1,
             rv_service_id = sr_service_id (example_requests ! 0),
             rv_service_request_id = 1, rating = rf_rating ?form,
             rv_remarks = rf_remarks ?form\<rparr>]"
    by blast
  from d(1) have f: "fst (review_service 1 ?form (example_env 2) example_db) =
       Redirect ''customer.service_history''
         (''Thank you for your review! You can now proceed to payment.'', ''success'')"
    and sn: "snd (review_service 1 ?form (example_env 2) example_db) = db'"
    by simp_all
  from d(2,3) show ?thesis
    unfolding sn row rv using v f by blast
qed

theorem review_service_atomic_witness:
  "succeeded (fst (review_service 1
       \<lparr>rf_validate_on_submit = True, rf_rating = 5, rf_remarks = Some ''great''\<rparr>
       (example_env 2) example_db))
   \<and> (\<exists>r'. get_request (snd (review_service 1
         \<lparr>rf_validate_on_submit = True, rf_rating = 5, rf_remarks = Some ''great''\<rparr>
         (example_env 2) example_db)) 1 = Some r'
        \<and> service_status r' = CLOSED \<and> date_of_completion r' = Some 1704153600)
   \<and> snd (review_service 1 \<lparr>rf_validate_on_submit = True, rf_rating = 2, rf_remarks = None\<rparr>
          (example_env 2)
          (snd (review_service 1
             \<lparr>rf_validate_on_submit = True, rf_rating = 5, rf_remarks = Some ''great''\<rparr>
             (example_env 2) example_db))) =
       snd (review_service 1
             \<lparr>rf_validate_on_submit = True, rf_rating = 5, rf_remarks = Some ''great''\<rparr>
             (example_env 2) example_db)
   \<and> review_service 3 \<lparr>rf_validate_on_submit = True, rf_rating = 2, rf_remarks = None\<rparr>
        (example_env 2) example_db =
       (Redirect ''customer.service_history''
          (''An error occurred while saving your review.'', ''danger''), example_db)"
proof -
  let ?form = "\<lparr>rf_validate_on_submit = True, rf_rating = 5, rf_remarks = Some ''great''\<rparr>"
  let ?form' = "\<lparr>rf_validate_on_submit = True, rf_rating = 2, rf_remarks = None\<rparr>"
  have own: "sr_customer_id (example_requests ! 0) = c_id (customers example_db ! 0)"
    "sr_customer_id (example_requests ! 2) = c_id (customers example_db ! 0)"
    by (simp_all add: example_defs)
  have s: "succeeded (fst (review_service 1 ?form (example_env 2) example_db))"
    by (simp add: review_service_def access_defs update_request_def and_then_def
        insert_review_def succeeded_def store_defs example_defs)
  have v: "utcnow (example_env 2) = 1704153600"
    "3 \<in> set (map rv_service_request_id (reviews example_db))"
    "rf_validate_on_submit ?form' \<and> int_fits (rf_rating ?form')
       \<and> int_fits (c_id (customers example_db ! 0))
       \<and> int_fits (sr_service_id (example_requests ! 2))
       \<and> (case sr_professional_id (example_requests ! 2) of None \<Rightarrow> True | Some p \<Rightarrow> int_fits p)"
    by (simp_all add: store_defs example_defs)
  note t1 = review_service_atomic[OF example_alice example_request_1 own(1), of ?form]
  from t1 s have a1: "\<exists>r'. get_request (snd (review_service 1 ?form (example_env 2) example_db)) 1
          = Some r'
        \<and> service_status r' = CLOSED
        \<and> date_of_completion r' = Some (utcnow (example_env 2))"
    by blast
  from t1 s have a2: "snd (review_service 1 ?form' (example_env 2)
          (snd (review_service 1 ?form (example_env 2) example_db))) =
       snd (review_service 1 ?form (example_env 2) example_db)"
    by blast
  note t3 = review_service_atomic[OF example_alice example_request_3 own(2), of ?form']
  from t3 v(2,3) have "snd (review_service 3 ?form' (example_env 2) example_db) = example_db"
    "fst (review_service 3 ?form' (example_env 2) example_db) =
       Redirect ''customer.service_history''
         (''An error occurred while saving your review.'', ''danger'')"
    by blast+
  then have b: "review_service 3 ?form' (example_env 2) example_db =
       (Redirect ''customer.service_history''
          (''An error occurred while saving your review.'', ''danger''), example_db)"
    by (simp only: prod_eq_iff fst_conv snd_conv)
  from s a1[unfolded v(1)] a2 b show ?thesis by blast
qed

section \<open>Booking\<close>

lemma book_service_cases:
  assumes "current_user env db = Some u" "is_active u" "role u = ''customer''"
    "user_customer db u = Some c" "\<not> c_admin_blocked c"
    "int_fits pid" "get_professional db pid = Some prof"
  shows "book_service pid form date_str env db =
    (if \<not> bf_validate_on_submit form
     then (Redirect ''customer.customer_dashboard''
             (''Form validation failed. Please check your inputs.'', ''danger''), db)
     else case parse_date env date_str of
       None \<Rightarrow> (Redirect ''customer.customer_dashboard''
                  (''Invalid date format. Please try again.'', ''danger''), db)
     | Some d \<Rightarrow>
        (case existing_request db (c_id c) pid of
           Some r \<Rightarrow> (Redirect ''customer.customer_dashboard''
                        (''You already have an active request with this professional.'',
                         ''warning''), db)
         | None \<Rightarrow>
            if store_failure env
            then (Redirect ''customer.customer_dashboard''
                    (''An error occurred while booking. Please try again.'', ''danger''), db)
            else if \<not> (int_fits (bf_service_id form) \<and> int_fits (c_id c))
            then (Raise OverflowError, db)
            else if \<not> fk_ok env (map s_id (services db)) (bf_service_id form)
            then (Redirect ''customer.customer_dashboard''
                    (''An error occurred while booking. Please try again.'', ''danger''), db)
            else (Redirect ''customer.service_history''
                    (''Your service request has been sent!'', ''success''),
                  db\<lparr>service_requests := service_requests db @
                      [\<lparr>created_at = now_utc env, updated_at = now_utc env,
                        sr_id = next_id (map sr_id (service_requests db)),
                        sr_service_id = bf_service_id form,
                        sr_customer_id = c_id c,
                        sr_professional_id = Some pid,
                        proposed_price = bf_proposed_price form,
                        date_of_request = d,
                        date_of_completion = None,
                        service_status = REQUESTED,
                        sr_remarks = None\<rparr>]\<rparr>)))"
proof -
  have k: "p_id prof = pid" by (rule get_professional_key[OF assms(7)])
  have fc: "fk_ok env (map c_id (customers db)) (c_id c)"
    using user_customer_mem[OF assms(4)] by (simp add: fk_ok_def)
  have fp: "fk_ok env (map p_id (service_professionals db)) pid"
    using get_professional_mem[OF assms(7)] by (simp add: fk_ok_def)
  show ?thesis
    using k fc fp assms(4,6,7)
    by (simp add: book_service_def customer_required_pass[OF assms(1-5)] get_or_404_def
        try_commit_def commit_def insert_service_request_def split: option.splits)
qed

lemma dashboard_query_listed:
  "prof \<in> set (dashboard_query ilike sid q db) \<Longrightarrow> is_verified prof \<and> \<not> p_admin_blocked prof"
  by (auto simp: dashboard_query_def split: option.splits)

text \<open>
  Claim C10. Booking looks at neither flag of the professional. For an authenticated,
  unblocked customer and any existing professional, verified or not, blocked or not:
  with a valid form, a date that parses, no active request of this customer with this
  professional and a commit that goes through (the store does not fail, the keys fit
  their columns and, where foreign keys are enforced, the service exists), the booking
  succeeds and stores a new REQUESTED request with this professional. Only the listing
  leaves out a professional that is not verified or is blocked.
\<close>

theorem book_service_ignores_flags:
  assumes "current_user env db = Some u" "is_active u" "role u = ''customer''"
    "user_customer db u = Some c" "\<not> c_admin_blocked c"
    "int_fits pid" "get_professional db pid = Some prof"
    "bf_validate_on_submit form" "parse_date env date_str = Some d"
    "existing_request db (c_id c) pid = None"
    "\<not> store_failure env"
    "int_fits (bf_service_id form)" "int_fits (c_id c)"
    "fk_ok env (map s_id (services db)) (bf_service_id form)"
  shows "book_service pid form date_str env db =
           (Redirect ''customer.service_history''
              (''Your service request has been sent!'', ''success''),
            db\<lparr>service_requests := service_requests db @
                [\<lparr>created_at = now_utc env, updated_at = now_utc env,
                  sr_id = next_id (map sr_id (service_requests db)),
                  sr_service_id = bf_service_id form,
                  sr_customer_id = c_id c,
                  sr_professional_id = Some pid,
                  proposed_price = bf_proposed_price form,
                  date_of_request = d,
                  date_of_completion = None,
                  service_status = REQUESTED,
                  sr_remarks = None\<rparr>]\<rparr>)
    \<and> (\<forall>ilike sid q. \<not> is_verified prof \<or> p_admin_blocked prof \<longrightarrow>
          prof \<notin> set (dashboard_query ilike sid q db))"
proof
  show "book_service pid form date_str env db =
           (Redirect ''customer.service_history''
              (''Your service request has been sent!'', ''success''),
            db\<lparr>service_requests := service_requests db @
                [\<lparr>created_at = now_utc env, updated_at = now_utc env,
                  sr_id = next_id (map sr_id (service_requests db)),
                  sr_service_id = bf_service_id form,
                  sr_customer_id = c_id c,
                  sr_professional_id = Some pid,
                  proposed_price = bf_proposed_price form,
                  date_of_request = d,
                  date_of_completion = None,
                  service_status = REQUESTED,
                  sr_remarks = None\<rparr>]\<rparr>)"
    using assms(8-14) by (simp add: book_service_cases[OF assms(1-7)])
  show "\<forall>ilike sid q. \<not> is_verified prof \<or> p_admin_blocked prof \<longrightarrow>
          prof \<notin> set (dashboard_query ilike sid q db)"
    using dashboard_query_listed by blast
qed

theorem book_service_ignores_flags_witness:
  "\<not> is_verified (example_professionals ! 1) \<and> p_admin_blocked (example_professionals ! 1)
   \<and> book_service 2 \<lparr>bf_validate_on_submit = True, bf_service_id = 1, bf_proposed_price = Some 90\<rparr>
        (Some ''2024-01-05'') (example_env 2) example_db =
       (Redirect ''customer.service_history''
          (''Your service request has been sent!'', ''success''),
        example_db\<lparr>service_requests := example_requests @
          [\<lparr>created_at = 1704153601, updated_at = 1704153601,
            sr_id = 4, sr_service_id = 1, sr_customer_id = 1, sr_professional_id = Some 2,
            proposed_price = Some 90, date_of_request = 1704412800,
            date_of_completion = None, service_status = REQUESTED, sr_remarks = None\<rparr>]\<rparr>)
   \<and> example_professionals ! 1 \<notin> set (dashboard_query (\<lambda>v pat. True) None [] example_db)"
proof -
  let ?form = "\<lparr>bf_validate_on_submit = True, bf_service_id = 1, bf_proposed_price = Some 90\<rparr>"
  have carol: "int_fits 2" "get_professional example_db 2 = Some (example_professionals ! 1)"
    by (simp_all add: store_defs example_defs)
  have h: "bf_validate_on_submit ?form"
    "parse_date (example_env 2) (Some ''2024-01-05'') = Some 1704412800"
    "existing_request example_db (c_id (customers example_db ! 0)) 2 = None"
    "\<not> store_failure (example_env 2)"
    "int_fits (bf_service_id ?form)" "int_fits (c_id (customers example_db ! 0))"
    "fk_ok (example_env 2) (map s_id (services example_db)) (bf_service_id ?form)"
    by (simp_all add: parse_date_def existing_request_def store_defs example_defs)
  have v: "\<not> is_verified (example_professionals ! 1)"
    "p_admin_blocked (example_professionals ! 1)"
    "next_id (map sr_id example_requests) = 4"
    "c_id (customers example_db ! 0) = 1"
    "service_requests example_db = example_requests"
    "now_utc (example_env 2) = 1704153601"
    by (simp_all add: store_defs example_defs)
  note t = book_service_ignores_flags[OF example_alice carol h]
  from t have a: "book_service 2 ?form (Some ''2024-01-05'') (example_env 2) example_db =
       (Redirect ''customer.service_history''
          (''Your service request has been sent!'', ''success''),
        example_db\<lparr>service_requests := example_requests @
          [\<lparr>created_at = 1704153601, updated_at = 1704153601,
            sr_id = 4, sr_service_id = 1, sr_customer_id = 1, sr_professional_id = Some 2,
            proposed_price = Some 90, date_of_request = 1704412800,
            date_of_completion = None, service_status = REQUESTED, sr_remarks = None\<rparr>]\<rparr>)"
    using v(3-6) by simp
  from t v(1) have b:
    "example_professionals ! 1 \<notin> set (dashboard_query (\<lambda>v pat. True) None [] example_db)"
    by blast
  from v(1,2) a b show ?thesis by blast
qed

section \<open>Completed jobs\<close>

lemma map_update_absent:
  "i \<notin> key ` set xs \<Longrightarrow> map (\<lambda>x. if key x = i then g x else x) xs = xs"
  by (induction xs) auto

lemma length_filter_update_one:
  assumes "distinct (map key xs)" "r \<in> set xs" "key r = i" "P r" "\<not> P (g r)"
  shows "Suc (length (filter P (map (\<lambda>x. if key x = i then g x else x) xs)))
           = length (filter P xs)"
  using assms
proof (induction xs)
  case Nil
  then show ?case by simp
next
  case (Cons x xs)
  show ?case
  proof (cases "key x = i")
    case True
    with Cons.prems have "x = r" by (auto simp: image_iff)
    moreover from True Cons.prems have "i \<notin> key ` set xs" by auto
    ultimately show ?thesis
      using Cons.prems True by (simp add: map_update_absent)
  next
    case False
    with Cons.prems have "r \<in> set xs" by auto
    with Cons False show ?thesis by simp
  qed
qed

lemma length_filter_update_same:
  assumes "\<And>x. x \<in> set xs \<Longrightarrow> key x = i \<Longrightarrow> P (g x) = P x"
  shows "length (filter P (map (\<lambda>x. if key x = i then g x else x) xs)) = length (filter P xs)"
  using assms by (induction xs) auto

lemma request_unique:
  assumes "distinct (map sr_id (service_requests db))" "get_request db rid = Some r"
    "x \<in> set (service_requests db)" "sr_id x = rid"
  shows "x = r"
proof -
  from assms(2) have "r \<in> set (service_requests db)" "sr_id r = rid"
    by (auto simp: get_request_def find_Some_iff)
  with assms(1,3,4) show ?thesis
    by (metis distinct_map inj_on_def)
qed

lemma jobs_count_after_payment:
  assumes "current_user env db = Some u" "is_active u" "role u = ''customer''"
    "user_customer db u = Some c" "\<not> c_admin_blocked c"
    "int_fits rid" "get_request db rid = Some r" "sr_customer_id r = c_id c"
    "service_status r = CLOSED" "\<not> store_failure env"
    "sr_professional_id r = Some p"
    "distinct (map sr_id (service_requests db))"
  shows "Suc (jobs_count (snd (process_payment rid env db)) p) = jobs_count db p"
    and "p' \<noteq> p \<Longrightarrow> jobs_count (snd (process_payment rid env db)) p' = jobs_count db p'"
proof -
  let ?g = "\<lambda>x. onupdate env x
                   (x\<lparr>service_status := PAID, date_of_completion := Some (utcnow env)\<rparr>)"
  have e: "snd (process_payment rid env db) =
             db\<lparr>service_requests :=
                  map (\<lambda>x. if sr_id x = rid then ?g x else x) (service_requests db)\<rparr>"
    using assms(8-10) by (simp add: process_payment_cases[OF assms(1-7)])
  have m: "r \<in> set (service_requests db)" "sr_id r = rid"
    using assms(7) by (auto simp: get_request_def find_Some_iff)
  have gr: "?g r = r\<lparr>service_status := PAID, date_of_completion := Some (utcnow env),
                     updated_at := now_utc env\<rparr>"
    by (rule paid_row[OF assms(9)])
  let ?P = "\<lambda>x. sr_professional_id x = Some p \<and> service_status x = CLOSED"
  have "Suc (length (filter ?P (map (\<lambda>x. if sr_id x = rid then ?g x else x)
                                  (service_requests db))))
          = length (filter ?P (service_requests db))"
    by (rule length_filter_update_one[where r = r]) (use assms(9,11,12) m gr in simp_all)
  then show "Suc (jobs_count (snd (process_payment rid env db)) p) = jobs_count db p"
    unfolding e jobs_count_def by simp
  show "jobs_count (snd (process_payment rid env db)) p' = jobs_count db p'" if "p' \<noteq> p"
  proof -
    let ?Q = "\<lambda>x. sr_professional_id x = Some p' \<and> service_status x = CLOSED"
    have "\<And>x. x \<in> set (service_requests db) \<Longrightarrow> sr_id x = rid \<Longrightarrow> ?Q (?g x) = ?Q x"
      using request_unique[OF assms(12,7)] assms(11) that gr by auto
    then have "length (filter ?Q (map (\<lambda>x. if sr_id x = rid then ?g x else x)
                                    (service_requests db)))
                 = length (filter ?Q (service_requests db))"
      by (rule length_filter_update_same)
    then show ?thesis
      unfolding e jobs_count_def by simp
  qed
qed

lemma customer_dashboard_rows:
  assumes "customer_dashboard ilike sid q env db = (Render tpl rows, db')"
  shows "rows = map (\<lambda>prof. (prof, jobs_count db (p_id prof))) (dashboard_query ilike sid q db)"
  using assms
  by (auto simp: customer_dashboard_def access_defs split: option.splits if_splits)

text \<open>
  Claim C9. The completed-jobs count of a professional is the number of request rows
  with that professional and status CLOSED, and it is the number the dashboard shows
  beside each listed professional. A PAID request is not counted: when the owner (an
  authenticated, unblocked customer) pays for a CLOSED request of professional \<open>p\<close>
  (primary keys being distinct, and the commit going through), the count of \<open>p\<close> goes
  down by one and no other count changes.
\<close>

theorem jobs_count_closed_not_paid:
  "jobs_count db p =
     card {i. i < length (service_requests db)
            \<and> sr_professional_id (service_requests db ! i) = Some p
            \<and> service_status (service_requests db ! i) = CLOSED}
   \<and> (\<forall>ilike sid q env tpl rows db'.
         customer_dashboard ilike sid q env db = (Render tpl rows, db') \<longrightarrow>
         (\<forall>(prof, n) \<in> set rows. n = jobs_count db (p_id prof)))
   \<and> (\<forall>env u c rid r.
         current_user env db = Some u \<and> is_active u \<and> role u = ''customer''
         \<and> user_customer db u = Some c \<and> \<not> c_admin_blocked c
         \<and> int_fits rid \<and> get_request db rid = Some r \<and> sr_customer_id r = c_id c
         \<and> service_status r = CLOSED \<and> \<not> store_failure env
         \<and> sr_professional_id r = Some p
         \<and> distinct (map sr_id (service_requests db)) \<longrightarrow>
         (\<exists>r'. get_request (snd (process_payment rid env db)) rid = Some r'
               \<and> service_status r' = PAID \<and> sr_professional_id r' = Some p)
         \<and> Suc (jobs_count (snd (process_payment rid env db)) p) = jobs_count db p
         \<and> (\<forall>p'. p' \<noteq> p \<longrightarrow>
               jobs_count (snd (process_payment rid env db)) p' = jobs_count db p'))"
proof (intro conjI allI impI)
  show "jobs_count db p =
     card {i. i < length (service_requests db)
            \<and> sr_professional_id (service_requests db ! i) = Some p
            \<and> service_status (service_requests db ! i) = CLOSED}"
    unfolding jobs_count_def by (rule length_filter_conv_card)
next
  fix ilike sid q env tpl rows db'
  assume "customer_dashboard ilike sid q env db = (Render tpl rows, db')"
  from customer_dashboard_rows[OF this]
  show "\<forall>(prof, n) \<in> set rows. n = jobs_count db (p_id prof)"
    by auto
next
  fix env u c rid r
  assume a: "current_user env db = Some u \<and> is_active u \<and> role u = ''customer''
         \<and> user_customer db u = Some c \<and> \<not> c_admin_blocked c
         \<and> int_fits rid \<and> get_request db rid = Some r \<and> sr_customer_id r = c_id c
         \<and> service_status r = CLOSED \<and> \<not> store_failure env
         \<and> sr_professional_id r = Some p
         \<and> distinct (map sr_id (service_requests db))"
  then have g: "current_user env db = Some u" "is_active u" "role u = ''customer''"
    "user_customer db u = Some c" "\<not> c_admin_blocked c"
    "int_fits rid" "get_request db rid = Some r"
    and h: "sr_customer_id r = c_id c" "service_status r = CLOSED" "\<not> store_failure env"
    "sr_professional_id r = Some p" "distinct (map sr_id (service_requests db))"
    by simp_all
  let ?g = "\<lambda>x. onupdate env x
                   (x\<lparr>service_status := PAID, date_of_completion := Some (utcnow env)\<rparr>)"
  have gid: "\<And>x. sr_id (?g x) = sr_id x" by (simp add: sr_id_onupdate)
  from process_payment_cases[OF g] h(1-3)
  have e: "snd (process_payment rid env db) =
             db\<lparr>service_requests :=
                  map (\<lambda>x. if sr_id x = rid then ?g x else x) (service_requests db)\<rparr>"
    by simp
  show "\<exists>r'. get_request (snd (process_payment rid env db)) rid = Some r'
               \<and> service_status r' = PAID \<and> sr_professional_id r' = Some p"
    unfolding e using g(7) get_request_key[OF g(7)] h(2,4)
    by (simp add: get_request_updated[of ?g, OF gid] paid_row)
  show "Suc (jobs_count (snd (process_payment rid env db)) p) = jobs_count db p"
    by (rule jobs_count_after_payment(1)[OF g h])
  fix p' assume "p' \<noteq> p"
  then show "jobs_count (snd (process_payment rid env db)) p' = jobs_count db p'"
    by (rule jobs_count_after_payment(2)[OF g h])
qed


theorem jobs_count_closed_not_paid_witness:
  "jobs_count example_db 1 = 1
   \<and> (\<exists>r'. get_request (snd (process_payment 3 (example_env 2) example_db)) 3 = Some r'
          \<and> service_status r' = PAID \<and> sr_professional_id r' = Some 1)
   \<and> jobs_count (snd (process_payment 3 (example_env 2) example_db)) 1 = 0
   \<and> customer_dashboard (\<lambda>v pat. True) None [] (example_env 2) example_db =
       (Render ''customer/customer_dashboard.html'' [(example_professionals ! 0, 1)], example_db)"
proof -
  have h: "sr_customer_id (example_requests ! 2) = c_id (customers example_db ! 0)"
    "service_status (example_requests ! 2) = CLOSED"
    "\<not> store_failure (example_env 2)"
    "sr_professional_id (example_requests ! 2) = Some 1"
    "distinct (map sr_id (service_requests example_db))"
    by (simp_all add: example_defs)
  have j: "jobs_count example_db 1 = 1"
    by (simp add: jobs_count_def example_defs)
  have d: "customer_dashboard (\<lambda>v pat. True) None [] (example_env 2) example_db =
       (Render ''customer/customer_dashboard.html'' [(example_professionals ! 0, 1)], example_db)"
    by (simp add: customer_dashboard_def access_defs dashboard_query_def
        jobs_count_def store_defs example_defs)
  note t = jobs_count_closed_not_paid[of example_db 1]
  from t example_alice example_request_3 h
  have a: "(\<exists>r'. get_request (snd (process_payment 3 (example_env 2) example_db)) 3 = Some r'
          \<and> service_status r' = PAID \<and> sr_professional_id r' = Some 1)"
    and b: "Suc (jobs_count (snd (process_payment 3 (example_env 2) example_db)) 1)
            = jobs_count example_db 1"
    by blast+
  from b j have "jobs_count (snd (process_payment 3 (example_env 2) example_db)) 1 = 0"
    by simp
  with j a d show ?thesis by blast
qed

section \<open>The uniqueness of active requests\<close>

text \<open>
  Claim C1. The claim says that no operation ever leaves two active requests of one
  customer with one professional, reassignment included. \<^verbatim>\<open>book_service\<close> looks for an
  active request of the pair before it inserts; \<^verbatim>\<open>reassign_professional\<close> does not look.
  In the example alice has a REQUESTED request (1) with bob and a REJECTED request (2)
  with carol, and the invariant holds. The administrator reassigns request 2 to bob: the
  handler reports success, request 2 is REQUESTED with bob, and the invariant no longer
  holds.
\<close>

theorem reassign_breaks_one_active_per_pair:
  "one_active_per_pair example_db
   \<and> get_request example_db 1 = Some (example_requests ! 0)
   \<and> reassign_professional 2 (Some 1) (example_env 1) example_db =
       (Redirect ''admin.admin_dashboard''
          (''Request #2 has been reassigned successfully.'', ''success''),
        example_db\<lparr>service_requests :=
          [example_requests ! 0,
           (example_requests ! 1)\<lparr>sr_professional_id := Some 1, service_status := REQUESTED,
                                    updated_at := 1704153601\<rparr>,
           example_requests ! 2]\<rparr>)
   \<and> \<not> one_active_per_pair (snd (reassign_professional 2 (Some 1) (example_env 1) example_db))"
proof -
  have 1: "one_active_per_pair example_db"
    by (simp add: one_active_per_pair_def active_def example_defs)
  have 2: "get_request example_db 1 = Some (example_requests ! 0)"
    by (rule example_request_1)
  have 3: "reassign_professional 2 (Some 1) (example_env 1) example_db =
       (Redirect ''admin.admin_dashboard''
          (''Request #2 has been reassigned successfully.'', ''success''),
        example_db\<lparr>service_requests :=
          [example_requests ! 0,
           (example_requests ! 1)\<lparr>sr_professional_id := Some 1, service_status := REQUESTED,
                                    updated_at := 1704153601\<rparr>,
           example_requests ! 2]\<rparr>)"
    by (simp add: reassign_professional_def access_defs update_request_professional_def
        update_request_def str_int_2 store_defs example_defs)
  have 4: "\<not> one_active_per_pair (snd (reassign_professional 2 (Some 1) (example_env 1) example_db))"
    unfolding 3 by (simp add: one_active_per_pair_def active_def example_defs)
  from 1 2 3 4 show ?thesis by blast
qed

section \<open>Blocking an account without a profile\<close>

text \<open>
  Claim C7. The claim says that blocking or unblocking an account with neither profile
  changes nothing and tells the caller that the profile was not found. The account of
  the administrator has neither profile. \<^verbatim>\<open>toggle_user_block\<close> answers "User profile not
  found." and changes nothing; the routes \<^verbatim>\<open>block_user\<close> and \<^verbatim>\<open>unblock_user\<close> change
  nothing either, but report that the user has been blocked (unblocked).
\<close>

theorem block_user_reports_success_without_profile:
  "user_customer example_db (example_users ! 0) = None
   \<and> user_professional example_db (example_users ! 0) = None
   \<and> block_user 1 (example_env 1) example_db =
       (Redirect ''admin.admin_dashboard'' (''User root has been blocked.'', ''warning''),
        example_db)
   \<and> unblock_user 1 (example_env 1) example_db =
       (Redirect ''admin.admin_dashboard'' (''User root has been unblocked.'', ''info''),
        example_db)
   \<and> toggle_user_block 1 (Some ''block'') (example_env 1) example_db =
       (Redirect ''admin.admin_dashboard'' (''User profile not found.'', ''danger''),
        example_db)"
  by (simp add: block_user_def unblock_user_def toggle_block_status_def toggle_user_block_def
      access_defs no_change_def store_defs example_defs)

section \<open>What the handlers change, and what they keep\<close>

lemma login_required_total:
  assumes "P db"
    and "\<And>u. current_user env db = Some u \<Longrightarrow> is_active u \<Longrightarrow> P (snd (f u env db))"
  shows "P (snd (login_required f env db))"
  using assms by (simp add: login_required_def is_authenticated_def split: option.splits)

lemma customer_required_total:
  assumes "P db"
    and "\<And>u. current_user env db = Some u \<Longrightarrow> is_active u \<Longrightarrow> role u = ''customer'' \<Longrightarrow>
           user_customer db u = None \<Longrightarrow> P (snd (f u env db))"
    and "\<And>u c. current_user env db = Some u \<Longrightarrow> is_active u \<Longrightarrow> role u = ''customer'' \<Longrightarrow>
           user_customer db u = Some c \<Longrightarrow> \<not> c_admin_blocked c \<Longrightarrow>
           P (snd (customer_required f env db))"
  shows "P (snd (customer_required f env db))"
proof (cases "current_user env db")
  case None
  with assms(1) show ?thesis by (simp add: access_defs)
next
  case (Some u)
  show ?thesis
  proof (cases "is_active u")
    case False
    with Some assms(1) show ?thesis by (simp add: access_defs)
  next
    case act: True
    show ?thesis
    proof (cases "role u = ''customer''")
      case False
      with Some act assms(1) show ?thesis by (simp add: access_defs)
    next
      case True
      show ?thesis
      proof (cases "user_customer db u")
        case None
        with Some act True assms(2)[OF Some act True None] show ?thesis
          by (simp add: access_defs)
      next
        case c: (Some c)
        show ?thesis
        proof (cases "c_admin_blocked c")
          case True
          with Some act \<open>role u = ''customer''\<close> c assms(1) show ?thesis
            by (simp add: access_defs)
        next
          case False
          from assms(3)[OF Some act True c False] show ?thesis .
        qed
      qed
    qed
  qed
qed

lemma get_or_404_cases:
  obtains resp where "get_or_404 get db i = Inl resp"
  | row where "int_fits i" "get db i = Some row" "get_or_404 get db i = Inr row"
  by (cases "int_fits i"; cases "get db i") (auto simp: get_or_404_def)

lemma book_service_changes:
  "snd (book_service pid form date_str env db) = db
   \<or> (\<exists>(c::Customers) new. existing_request db (c_id c) pid = None
           \<and> sr_customer_id new = c_id c \<and> sr_professional_id new = Some pid
           \<and> snd (book_service pid form date_str env db)
               = db\<lparr>service_requests := service_requests db @ [new]\<rparr>)"
  unfolding book_service_def
proof (rule customer_required_total, goal_cases)
  case 1
  show ?case by simp
next
  case (2 u)
  then show ?case by (simp split: sum.splits option.splits)
next
  case (3 u c)
  have "snd (book_service pid form date_str env db) = db
   \<or> (\<exists>(c::Customers) new. existing_request db (c_id c) pid = None
           \<and> sr_customer_id new = c_id c \<and> sr_professional_id new = Some pid
           \<and> snd (book_service pid form date_str env db)
               = db\<lparr>service_requests := service_requests db @ [new]\<rparr>)"
  proof (rule get_or_404_cases[of get_professional db pid])
    fix resp assume "get_or_404 get_professional db pid = Inl resp"
    then show ?thesis by (simp add: book_service_def customer_required_pass[OF 3])
  next
    fix prof
    assume p: "int_fits pid" "get_professional db pid = Some prof"
    note bc = book_service_cases[OF 3 p]
    show ?thesis
    proof (cases "snd (book_service pid form date_str env db) = db")
      case True
      then show ?thesis by simp
    next
      case False
      then obtain d where d: "existing_request db (c_id c) pid = None"
        "snd (book_service pid form date_str env db) =
           db\<lparr>service_requests := service_requests db @
                  [\<lparr>created_at = now_utc env, updated_at = now_utc env,
                    sr_id = next_id (map sr_id (service_requests db)),
                    sr_service_id = bf_service_id form,
                    sr_customer_id = c_id c,
                    sr_professional_id = Some pid,
                    proposed_price = bf_proposed_price form,
                    date_of_request = d,
                    date_of_completion = None,
                    service_status = REQUESTED,
                    sr_remarks = None\<rparr>]\<rparr>"
        unfolding bc by (auto split: option.splits if_splits)
      let ?new = "\<lparr>created_at = now_utc env, updated_at = now_utc env,
                    sr_id = next_id (map sr_id (service_requests db)),
                    sr_service_id = bf_service_id form,
                    sr_customer_id = c_id c,
                    sr_professional_id = Some pid,
                    proposed_price = bf_proposed_price form,
                    date_of_request = d,
                    date_of_completion = None,
                    service_status = REQUESTED,
                    sr_remarks = None\<rparr>"
      from d have "existing_request db (c_id c) pid = None
          \<and> sr_customer_id ?new = c_id c \<and> sr_professional_id ?new = Some pid
          \<and> snd (book_service pid form date_str env db)
              = db\<lparr>service_requests := service_requests db @ [?new]\<rparr>"
        by simp
      then show ?thesis by blast
    qed
  qed
  then show ?case by (simp add: book_service_def)
qed

lemma book_service_keeps_pairs:
  assumes "one_active_per_pair db"
  shows "one_active_per_pair (snd (book_service pid form date_str env db))"
  using book_service_changes[of pid form date_str env db]
proof (elim disjE exE conjE)
  assume "snd (book_service pid form date_str env db) = db"
  with assms show ?thesis by simp
next
  fix c :: Customers and new
  assume n: "existing_request db (c_id c) pid = None"
    "sr_customer_id new = c_id c" "sr_professional_id new = Some pid"
    and e: "snd (book_service pid form date_str env db)
              = db\<lparr>service_requests := service_requests db @ [new]\<rparr>"
  from n(1) have "\<forall>x \<in> set (service_requests db).
      \<not> (sr_customer_id x = c_id c \<and> sr_professional_id x = Some pid \<and> active x)"
    by (auto simp: existing_request_def find_None_iff active_def)
  then have "(c_id c, Some pid) \<notin>
      set (map (\<lambda>r. (sr_customer_id r, sr_professional_id r))
             (filter active (service_requests db)))"
    by auto
  with assms n(2,3) show ?thesis
    unfolding e one_active_per_pair_def by auto
qed

lemma process_payment_changes:
  "rows_updated rid
     (\<lambda>x. onupdate env x (x\<lparr>service_status := PAID, date_of_completion := Some (utcnow env)\<rparr>))
     db (snd (process_payment rid env db))"
  unfolding process_payment_def
proof (rule customer_required_total, goal_cases)
  case 1
  show ?case by (simp add: rows_updated_def)
next
  case (2 u)
  then show ?case by (simp add: rows_updated_def split: sum.splits option.splits)
next
  case (3 u c)
  show ?case
  proof (rule get_or_404_cases[of get_request db rid])
    fix resp assume "get_or_404 get_request db rid = Inl resp"
    then show ?thesis by (simp add: customer_required_pass[OF 3] rows_updated_def)
  next
    fix r assume r: "int_fits rid" "get_request db rid = Some r"
    from process_payment_cases[OF 3 r] show ?thesis
      by (simp add: process_payment_def rows_updated_def)
  qed
qed

lemma update_service_request_changes:
  "rows_updated rid (\<lambda>x. onupdate env x (x\<lparr>proposed_price := uf_proposed_price form\<rparr>))
     db (snd (update_service_request rid form env db))"
  unfolding update_service_request_def
proof (rule customer_required_total, goal_cases)
  case 1
  show ?case by (simp add: rows_updated_def)
next
  case (2 u)
  then show ?case by (simp add: rows_updated_def split: sum.splits option.splits)
next
  case (3 u c)
  show ?case
  proof (rule get_or_404_cases[of get_request db rid])
    fix resp assume "get_or_404 get_request db rid = Inl resp"
    then show ?thesis by (simp add: customer_required_pass[OF 3] rows_updated_def)
  next
    fix r assume r: "int_fits rid" "get_request db rid = Some r"
    from update_service_request_cases[OF 3 r, of form] show ?thesis
      by (simp add: update_service_request_def rows_updated_def)
  qed
qed

lemma review_service_changes:
  "rows_updated rid
     (\<lambda>x. onupdate env x (x\<lparr>service_status := CLOSED, date_of_completion := Some (utcnow env)\<rparr>))
     db (snd (review_service rid form env db))"
  unfolding review_service_def
proof (rule customer_required_total, goal_cases)
  case 1
  show ?case by (simp add: rows_updated_def)
next
  case (2 u)
  then show ?case by (simp add: rows_updated_def split: sum.splits option.splits)
next
  case (3 u c)
  show ?case
  proof (rule get_or_404_cases[of get_request db rid])
    fix resp assume "get_or_404 get_request db rid = Inl resp"
    then show ?thesis by (simp add: customer_required_pass[OF 3] rows_updated_def)
  next
    fix r assume r: "int_fits rid" "get_request db rid = Some r"
    from review_service_cases[OF 3 r, of form] show ?thesis
      by (simp add: review_service_def rows_updated_def)
  qed
qed

lemma pairs_of_update_subset:
  assumes "\<And>x. pair (upd x) = pair x" "\<And>x. act (upd x) \<Longrightarrow> act x"
  shows "set (map pair (filter act (map (\<lambda>x. if key x = i then upd x else x) xs)))
           \<subseteq> set (map pair (filter act xs))"
  using assms by (induction xs) (auto simp: image_iff)

lemma distinct_pairs_update:
  assumes "\<And>x. pair (upd x) = pair x" "\<And>x. act (upd x) \<Longrightarrow> act x"
    "distinct (map pair (filter act xs))"
  shows "distinct (map pair (filter act (map (\<lambda>x. if key x = i then upd x else x) xs)))"
  using assms(3)
proof (induction xs)
  case Nil
  then show ?case by simp
next
  case (Cons x xs)
  let ?f = "\<lambda>x. if key x = i then upd x else x"
  have sub: "set (map pair (filter act (map ?f xs))) \<subseteq> set (map pair (filter act xs))"
    by (rule pairs_of_update_subset) (use assms(1,2) in auto)
  have px: "pair (?f x) = pair x" using assms(1) by simp
  have ax: "act (?f x) \<Longrightarrow> act x" using assms(2) by (simp split: if_splits)
  from Cons.prems have d: "distinct (map pair (filter act xs))"
    by (simp split: if_splits)
  show ?case
  proof (cases "act (?f x)")
    case True
    with ax have "act x" by simp
    with Cons.prems have "pair x \<notin> set (map pair (filter act xs))" by simp
    with sub have "pair (?f x) \<notin> set (map pair (filter act (map ?f xs)))"
      unfolding px by blast
    with True Cons.IH[OF d] show ?thesis by simp
  next
    case False
    with Cons.IH[OF d] show ?thesis by simp
  qed
qed

lemma rows_updated_keeps_pairs:
  assumes "rows_updated rid upd db db'" "one_active_per_pair db"
    "\<And>x. sr_customer_id (upd x) = sr_customer_id x"
    "\<And>x. sr_professional_id (upd x) = sr_professional_id x"
    "\<And>x. active (upd x) \<Longrightarrow> active x"
  shows "one_active_per_pair db'"
proof (cases "db' = db")
  case True
  with assms(2) show ?thesis by simp
next
  case False
  with assms(1) have e: "service_requests db' =
        map (\<lambda>x. if sr_id x = rid then upd x else x) (service_requests db)"
    by (simp add: rows_updated_def)
  show ?thesis
    unfolding one_active_per_pair_def e
    by (rule distinct_pairs_update)
       (use assms(2-5) in \<open>simp_all add: one_active_per_pair_def\<close>)
qed

lemma reassign_professional_changes:
  "rows_updated rid
     (\<lambda>x. onupdate env x (x\<lparr>sr_professional_id := Some (the np), service_status := REQUESTED\<rparr>))
     db (snd (reassign_professional rid np env db))"
  unfolding reassign_professional_def admin_required_def
proof (rule login_required_total, goal_cases)
  case 1
  show ?case by (simp add: rows_updated_def)
next
  case (2 u)
  show ?case
  proof (cases "role u = ''admin''")
    case False
    then show ?thesis by (simp add: rows_updated_def)
  next
    case True
    show ?thesis
    proof (rule get_or_404_cases[of get_request db rid])
      fix resp assume "get_or_404 get_request db rid = Inl resp"
      with True show ?thesis by (simp add: rows_updated_def)
    next
      fix r assume r: "int_fits rid" "get_request db rid = Some r"
      from reassign_professional_cases[OF 2 True r, of np] True 2 show ?thesis
        by (simp add: reassign_professional_def admin_required_pass[OF 2 True] rows_updated_def)
    qed
  qed
qed

lemma rows_updated_keeps_professional:
  assumes "rows_updated rid upd db db'" "all_have_professional db"
    "\<And>x. sr_professional_id x \<noteq> None \<Longrightarrow> sr_professional_id (upd x) \<noteq> None"
  shows "all_have_professional db'"
proof (cases "db' = db")
  case True
  with assms(2) show ?thesis by simp
next
  case False
  with assms(1) have e: "service_requests db' =
        map (\<lambda>x. if sr_id x = rid then upd x else x) (service_requests db)"
    by (simp add: rows_updated_def)
  from assms(2,3) show ?thesis
    unfolding all_have_professional_def e by (auto simp: list_all_iff)
qed

lemma book_service_keeps_professional:
  assumes "all_have_professional db"
  shows "all_have_professional (snd (book_service pid form date_str env db))"
  using book_service_changes[of pid form date_str env db]
proof (elim disjE exE conjE)
  assume "snd (book_service pid form date_str env db) = db"
  with assms show ?thesis by simp
next
  fix c :: Customers and new
  assume "sr_professional_id new = Some pid"
    and e: "snd (book_service pid form date_str env db)
              = db\<lparr>service_requests := service_requests db @ [new]\<rparr>"
  with assms show ?thesis
    unfolding e all_have_professional_def by simp
qed

text \<open>
  The first half of the uniqueness invariant: \<^verbatim>\<open>book_service\<close> never breaks it, whoever
  calls it with whatever input; and when the customer already has an active request with
  the professional, it answers with the warning and writes nothing.
\<close>

theorem book_service_one_active_per_pair:
  "(one_active_per_pair db \<longrightarrow>
      one_active_per_pair (snd (book_service pid form date_str env db)))
   \<and> (\<forall>u c prof d r.
         current_user env db = Some u \<and> is_active u \<and> role u = ''customer''
         \<and> user_customer db u = Some c \<and> \<not> c_admin_blocked c
         \<and> int_fits pid \<and> get_professional db pid = Some prof
         \<and> bf_validate_on_submit form \<and> parse_date env date_str = Some d
         \<and> existing_request db (c_id c) pid = Some r \<longrightarrow>
         book_service pid form date_str env db =
           (Redirect ''customer.customer_dashboard''
              (''You already have an active request with this professional.'', ''warning''),
            db))"
proof (intro conjI impI allI)
  assume "one_active_per_pair db"
  then show "one_active_per_pair (snd (book_service pid form date_str env db))"
    by (rule book_service_keeps_pairs)
next
  fix u c prof d r
  assume a: "current_user env db = Some u \<and> is_active u \<and> role u = ''customer''
         \<and> user_customer db u = Some c \<and> \<not> c_admin_blocked c
         \<and> int_fits pid \<and> get_professional db pid = Some prof
         \<and> bf_validate_on_submit form \<and> parse_date env date_str = Some d
         \<and> existing_request db (c_id c) pid = Some r"
  then have g: "current_user env db = Some u" "is_active u" "role u = ''customer''"
    "user_customer db u = Some c" "\<not> c_admin_blocked c"
    "int_fits pid" "get_professional db pid = Some prof"
    by simp_all
  from a show "book_service pid form date_str env db =
           (Redirect ''customer.customer_dashboard''
              (''You already have an active request with this professional.'', ''warning''),
            db)"
    by (simp add: book_service_cases[OF g])
qed

theorem book_service_one_active_per_pair_witness:
  "one_active_per_pair example_db
   \<and> one_active_per_pair (snd (book_service 2
        \<lparr>bf_validate_on_submit = True, bf_service_id = 1, bf_proposed_price = Some 90\<rparr>
        (Some ''2024-01-05'') (example_env 2) example_db))
   \<and> book_service 1 \<lparr>bf_validate_on_submit = True, bf_service_id = 1, bf_proposed_price = Some 90\<rparr>
        (Some ''2024-01-05'') (example_env 2) example_db =
       (Redirect ''customer.customer_dashboard''
          (''You already have an active request with this professional.'', ''warning''),
        example_db)"
proof -
  let ?form = "\<lparr>bf_validate_on_submit = True, bf_service_id = 1, bf_proposed_price = Some 90\<rparr>"
  have i: "one_active_per_pair example_db"
    by (simp add: one_active_per_pair_def active_def example_defs)
  have h: "int_fits 1" "get_professional example_db 1 = Some (example_professionals ! 0)"
    "bf_validate_on_submit ?form"
    "parse_date (example_env 2) (Some ''2024-01-05'') = Some 1704412800"
    "existing_request example_db (c_id (customers example_db ! 0)) 1 = Some (example_requests ! 0)"
    by (simp_all add: parse_date_def existing_request_def store_defs example_defs)
  from book_service_one_active_per_pair[of example_db 2 ?form "Some ''2024-01-05''" "example_env 2"] i
  have a: "one_active_per_pair (snd (book_service 2 ?form (Some ''2024-01-05'')
             (example_env 2) example_db))"
    by blast
  from book_service_one_active_per_pair[of example_db 1 ?form "Some ''2024-01-05''" "example_env 2"]
    example_alice h
  have b: "book_service 1 ?form (Some ''2024-01-05'') (example_env 2) example_db =
       (Redirect ''customer.customer_dashboard''
          (''You already have an active request with this professional.'', ''warning''),
        example_db)"
    by blast
  from i a b show ?thesis by blast
qed

text \<open>
  Changing the price, reviewing and paying never break the uniqueness invariant: they
  leave customer and professional of every request alone and activate none.
\<close>

theorem customer_updates_keep_one_active_per_pair:
  assumes "one_active_per_pair db"
  shows "one_active_per_pair (snd (update_service_request rid uform env db))
    \<and> one_active_per_pair (snd (review_service rid rform env db))
    \<and> one_active_per_pair (snd (process_payment rid env db))"
proof (intro conjI)
  show "one_active_per_pair (snd (update_service_request rid uform env db))"
    by (rule rows_updated_keeps_pairs[OF update_service_request_changes assms])
       (auto simp: active_def onupdate_def split: if_splits)
  show "one_active_per_pair (snd (review_service rid rform env db))"
    by (rule rows_updated_keeps_pairs[OF review_service_changes assms])
       (auto simp: active_def onupdate_def split: if_splits)
  show "one_active_per_pair (snd (process_payment rid env db))"
    by (rule rows_updated_keeps_pairs[OF process_payment_changes assms])
       (auto simp: active_def onupdate_def split: if_splits)
qed

theorem customer_updates_keep_one_active_per_pair_witness:
  "one_active_per_pair example_db
   \<and> one_active_per_pair (snd (update_service_request 1
        \<lparr>uf_validate_on_submit = True, uf_proposed_price = Some 150\<rparr> (example_env 2) example_db))
   \<and> one_active_per_pair (snd (review_service 1
        \<lparr>rf_validate_on_submit = True, rf_rating = 5, rf_remarks = None\<rparr>
        (example_env 2) example_db))
   \<and> one_active_per_pair (snd (process_payment 3 (example_env 2) example_db))"
proof -
  have i: "one_active_per_pair example_db"
    by (simp add: one_active_per_pair_def active_def example_defs)
  from customer_updates_keep_one_active_per_pair[OF i] i show ?thesis by blast
qed

text \<open>
  No handler takes the professional away from a request: when every request has one
  before a call of any of the five lifecycle handlers, every request has one after it.
\<close>

theorem handlers_keep_professional:
  assumes "all_have_professional db"
  shows "all_have_professional (snd (book_service pid bform date_str env db))
    \<and> all_have_professional (snd (update_service_request rid uform env db))
    \<and> all_have_professional (snd (review_service rid rform env db))
    \<and> all_have_professional (snd (process_payment rid env db))
    \<and> all_have_professional (snd (reassign_professional rid np env db))"
proof (intro conjI)
  show "all_have_professional (snd (book_service pid bform date_str env db))"
    by (rule book_service_keeps_professional[OF assms])
  show "all_have_professional (snd (update_service_request rid uform env db))"
    by (rule rows_updated_keeps_professional[OF update_service_request_changes assms])
       (auto simp: onupdate_def split: if_splits)
  show "all_have_professional (snd (review_service rid rform env db))"
    by (rule rows_updated_keeps_professional[OF review_service_changes assms])
       (auto simp: onupdate_def split: if_splits)
  show "all_have_professional (snd (process_payment rid env db))"
    by (rule rows_updated_keeps_professional[OF process_payment_changes assms])
       (auto simp: onupdate_def split: if_splits)
  show "all_have_professional (snd (reassign_professional rid np env db))"
    by (rule rows_updated_keeps_professional[OF reassign_professional_changes assms])
       (auto simp: onupdate_def split: if_splits)
qed

theorem handlers_keep_professional_witness:
  "all_have_professional example_db
   \<and> all_have_professional (snd (reassign_professional 2 (Some 1) (example_env 1) example_db))
   \<and> all_have_professional (snd (book_service 2
        \<lparr>bf_validate_on_submit = True, bf_service_id = 1, bf_proposed_price = Some 90\<rparr>
        (Some ''2024-01-05'') (example_env 2) example_db))"
proof -
  have i: "all_have_professional example_db"
    by (simp add: all_have_professional_def example_defs)
  from handlers_keep_professional[OF i] i show ?thesis by blast
qed

text \<open>
  On an account with neither profile none of the three blocking routes changes the
  database, and \<^verbatim>\<open>toggle_user_block\<close> tells the administrator that the
  profile was not found.
\<close>

theorem toggle_user_block_without_profile:
  assumes "current_user env db = Some a" "is_active a" "role a = ''admin''"
    "int_fits uid" "get_user db uid = Some user"
    "user_customer db user = None" "user_professional db user = None"
  shows "toggle_user_block uid action env db =
           (Redirect ''admin.admin_dashboard'' (''User profile not found.'', ''danger''), db)
    \<and> snd (block_user uid env db) = db
    \<and> snd (unblock_user uid env db) = db"
  using assms(4-7)
  by (simp add: toggle_user_block_def block_user_def unblock_user_def toggle_block_status_def
      admin_required_pass[OF assms(1-3)] get_or_404_def try_commit_def commit_def no_change_def)

theorem toggle_user_block_without_profile_witness:
  "toggle_user_block 1 (Some ''unblock'') (example_env 1) example_db =
     (Redirect ''admin.admin_dashboard'' (''User profile not found.'', ''danger''), example_db)
   \<and> snd (block_user 1 (example_env 1) example_db) = example_db
   \<and> snd (unblock_user 1 (example_env 1) example_db) = example_db"
proof -
  have h: "int_fits 1" "get_user example_db 1 = Some (example_users ! 0)"
    "user_customer example_db (example_users ! 0) = None"
    "user_professional example_db (example_users ! 0) = None"
    by (simp_all add: store_defs example_defs)
  from toggle_user_block_without_profile[OF example_root h] show ?thesis .
qed

end
